theory Spec2Isabelle
  imports Main
begin

section \<open>Values of the program\<close>

subsection \<open>JSON documents and Python dictionaries\<close>

text \<open>
  What \<^verbatim>\<open>json.loads\<close> returns: \<^verbatim>\<open>None\<close>, booleans, integers, strings, lists and
  dictionaries. A dictionary is an association list in insertion order, as a Python
  \<^verbatim>\<open>dict\<close> keeps it. (Floating-point numbers do not occur in the documents of this
  program and are left out.)
\<close>

datatype json =
    JNull
  | JBool bool
  | JInt int
  | JStr string
  | JList "json list"
  | JDict "(string \<times> json) list"

text \<open>
  \<^verbatim>\<open>d[k] = v\<close> on a \<^verbatim>\<open>dict\<close>: an existing key keeps its position and takes the new
  value, a new key goes to the end.
\<close>

fun dict_setitem :: "string \<Rightarrow> json \<Rightarrow> (string \<times> json) list \<Rightarrow> (string \<times> json) list" where
  "dict_setitem k v [] = [(k, v)]"
| "dict_setitem k v ((k', v') # d) =
     (if k' = k then (k, v) # d else (k', v') # dict_setitem k v d)"

subsection \<open>Exceptions\<close>

text \<open>
  \<open>SystemExit\<close> is what \<^verbatim>\<open>exit(msg)\<close> raises; \<open>Failure\<close> stands for whatever an
  external collaborator (chain node, compiler, content store, registry) raises.
\<close>

datatype exn =
    SystemExit string
  | KeyError string
  | TypeError
  | FileNotFoundError
  | JSONDecodeError
  | Failure string

text \<open>Sequencing of computations that may raise: the first exception wins.\<close>

definition bind_r :: "exn + 'a \<Rightarrow> ('a \<Rightarrow> exn + 'b) \<Rightarrow> exn + 'b" where
  "bind_r r f = (case r of Inl e \<Rightarrow> Inl e | Inr x \<Rightarrow> f x)"

text \<open>
  \<^verbatim>\<open>x[k]\<close> and \<^verbatim>\<open>x[k] = v\<close> with a string key \<open>k\<close>: \<^verbatim>\<open>KeyError\<close> on a dictionary
  without the key, \<^verbatim>\<open>TypeError\<close> on every value that is not a dictionary.
\<close>

fun getitem :: "json \<Rightarrow> string \<Rightarrow> exn + json" where
  "getitem (JDict d) k = (case map_of d k of None \<Rightarrow> Inl (KeyError k) | Some v \<Rightarrow> Inr v)"
| "getitem _ k = Inl TypeError"

fun setitem :: "json \<Rightarrow> string \<Rightarrow> json \<Rightarrow> exn + json" where
  "setitem (JDict d) k v = Inr (JDict (dict_setitem k v d))"
| "setitem _ k v = Inl TypeError"

subsection \<open>Files, transactions, receipts\<close>

text \<open>
  A JSON file is represented by what \<^verbatim>\<open>open\<close> and \<^verbatim>\<open>json.loads\<close> make of it: there
  is no file, or its text is rejected by the parser, or it parses to a document. The
  empty text is rejected by \<^verbatim>\<open>json.loads\<close>, so a truncated file is \<open>Unparseable []\<close>.
\<close>

datatype json_file = Absent | Unparseable string | Doc json

datatype path = ContractPath | CompileDataPath | ContrInfoPath

record txn =
  nonce :: int
  gas :: int

record receipt =
  contractAddress :: string
  gasUsed :: int

section \<open>The outside world\<close>

subsection \<open>Observable events\<close>

datatype log_message =
    TryingToStartIpfs
  | StartedIpfsDaemon
  | ConnectedToIpfs
  | NotConnectedToIpfs
  | GasUsedMsg int
  | IpfsHashSet string
  | CheckAbiOn string
  | DeployedContr string
  | EnsNameSet string string string

datatype event =
    MakeW3Call
  | EthGasPrice
  | EthGetBalance string
  | LogInfo log_message
  | LogWarning log_message
  | Popen "string list"
  | Sleep nat
  | IpfsConnect string
  | FileOpen path string
  | FileTruncated path
  | FileDumped path json
  | CompileStandard json
  | EthEstimateGas
  | EthGetTransactionCount string
  | BuildTransaction txn
  | EthSendRawTransaction string
  | EthWaitForTransactionReceipt string
  | IpfsAdd path
  | SubprocessRun "string list"
  | IpfsClose
  | ContractConnection string
  | Transact string string "string list"
  | Call string string "string list"

subsection \<open>What the collaborators answer\<close>

text \<open>
  The program talks to a chain node, a compiler, a content-store daemon and two
  registry contracts through libraries and through \<^verbatim>\<open>onchaining_tools\<close>. Their
  answers are parameters of the model: each field is the outcome of one call, an
  exception (\<open>Inl\<close>) or a value (\<open>Inr\<close>).
\<close>

record env =
  config_current_chain :: string
  MakeW3 :: "exn + string"
  eth_gasPrice :: "exn + int"
  eth_getBalance :: "string \<Rightarrow> exn + int"
  open_devnull :: "exn + unit"
  subprocess_Popen :: "string list \<Rightarrow> exn + unit"
  ipfshttpclient_connect :: "string \<Rightarrow> exn + unit"
  read_contract :: "exn + string"
  load_compile_data :: "exn + json"
  compile_standard :: "json \<Rightarrow> exn + json"
  json_loads :: "string \<Rightarrow> exn + json"
  eth_contract :: "json \<Rightarrow> json \<Rightarrow> exn + unit"
  estimateGas :: "exn + int"
  eth_getTransactionCount :: "string \<Rightarrow> exn + int"
  buildTransaction :: "txn \<Rightarrow> exn + unit"
  sign_transaction :: "txn \<Rightarrow> exn + string"
  eth_sendRawTransaction :: "string \<Rightarrow> exn + string"
  eth_waitForTransactionReceipt :: "string \<Rightarrow> exn + receipt"
  open_contr_info_w :: "exn + unit"
  client_add :: "json_file \<Rightarrow> exn + string"
  subprocess_run :: "string list \<Rightarrow> exn + unit"
  client_close :: "exn + unit"
  contract_connection :: "string \<Rightarrow> exn + unit"
  namehash :: "string \<Rightarrow> string"
  keccak :: "string \<Rightarrow> string"
  transact :: "string \<Rightarrow> string \<Rightarrow> string list \<Rightarrow> exn + unit"
  call :: "string \<Rightarrow> string \<Rightarrow> string list \<Rightarrow> exn + string"
  toChecksumAddress :: "string \<Rightarrow> exn + string"
  content_hash_encode :: "string \<Rightarrow> string \<Rightarrow> exn + string"
  content_hash_decode :: "string \<Rightarrow> exn + string"
  bytes_hex :: "string \<Rightarrow> string"

section \<open>The deployer\<close>

subsection \<open>State\<close>

text \<open>
  The attributes of \<^verbatim>\<open>ContractDeployer\<close> (\<open>client\<close> is \<^verbatim>\<open>self._client\<close>: \<open>None\<close>
  or the connected client), the contract-record file \<^verbatim>\<open>tools.get_contr_info_path()\<close>
  and the events so far, oldest first. Attributes that the source creates after
  \<^verbatim>\<open>__init__\<close> hold a placeholder until they are assigned; \<^verbatim>\<open>do_deploy\<close> assigns each
  before it is read.
\<close>

record state =
  current_chain :: string
  pubkey :: string
  client :: "unit option"
  bytecode :: json
  abi :: json
  contr_address :: string
  ipfs_hash :: string
  contr_info_file :: json_file
  trace :: "event list"

type_synonym 'a prog = "state \<Rightarrow> (exn + 'a) \<times> state"

definition bind_st :: "'a prog \<Rightarrow> ('a \<Rightarrow> 'b prog) \<Rightarrow> 'b prog" where
  "bind_st m f s = (case m s of (Inl e, s') \<Rightarrow> (Inl e, s') | (Inr x, s') \<Rightarrow> f x s')"

definition return :: "'a \<Rightarrow> 'a prog" where
  "return x s = (Inr x, s)"

definition lift :: "exn + 'a \<Rightarrow> 'a prog" where
  "lift r s = (r, s)"

definition gets :: "(state \<Rightarrow> 'a) \<Rightarrow> 'a prog" where
  "gets f s = (Inr (f s), s)"

definition modify :: "(state \<Rightarrow> state) \<Rightarrow> unit prog" where
  "modify f s = (Inr (), f s)"

definition emit :: "event \<Rightarrow> unit prog" where
  "emit ev s = (Inr (), s\<lparr>trace := trace s @ [ev]\<rparr>)"

text \<open>A call to a collaborator: the call is observed, then it returns or raises.\<close>

definition request :: "event \<Rightarrow> exn + 'a \<Rightarrow> 'a prog" where
  "request ev r = bind_st (emit ev) (\<lambda>_. lift r)"

text \<open>\<^verbatim>\<open>try: body except: handler\<close> with a bare \<^verbatim>\<open>except\<close>, which catches everything.\<close>

definition try_except :: "'a prog \<Rightarrow> 'a prog \<Rightarrow> 'a prog" where
  "try_except body handler s =
     (case body s of (Inl e, s') \<Rightarrow> handler s' | (Inr x, s') \<Rightarrow> (Inr x, s'))"

subsection \<open>\<^verbatim>\<open>check_balance\<close> and \<^verbatim>\<open>__init__\<close>\<close>

definition check_balance :: "env \<Rightarrow> unit prog" where
  "check_balance env =
     (let gas_limit = 600000 in
      bind_st (request EthGasPrice (eth_gasPrice env)) (\<lambda>gas_price.
      bind_st (gets pubkey) (\<lambda>pk.
      bind_st (request (EthGetBalance pk) (eth_getBalance env pk)) (\<lambda>gas_balance.
      if gas_balance < gas_limit * gas_price
      then lift (Inl (SystemExit
             ''Your gas balance is not sufficient for performing all transactions.''))
      else return ()))))"

definition init :: "env \<Rightarrow> unit prog" where
  "init env =
     bind_st (modify (\<lambda>s. s\<lparr>current_chain := config_current_chain env\<rparr>)) (\<lambda>_.
     bind_st (request MakeW3Call (MakeW3 env)) (\<lambda>address.
     bind_st (modify (\<lambda>s. s\<lparr>pubkey := address\<rparr>)) (\<lambda>_.
     check_balance env)))"

subsection \<open>\<^verbatim>\<open>_open_ipfs_connection\<close>\<close>

text \<open>
  The whole body is under a bare \<^verbatim>\<open>except\<close>: whatever fails, the warning is logged
  and \<^verbatim>\<open>self._client\<close> becomes \<^verbatim>\<open>None\<close>. (Calls to \<^verbatim>\<open>logging\<close> are taken not to
  raise, here and below.)
\<close>

definition open_ipfs_connection :: "env \<Rightarrow> unit prog" where
  "open_ipfs_connection env =
     try_except
       (bind_st (emit (LogInfo TryingToStartIpfs)) (\<lambda>_.
        bind_st (lift (open_devnull env)) (\<lambda>_.
        bind_st (request (Popen [''ipfs'', ''init''])
                   (subprocess_Popen env [''ipfs'', ''init''])) (\<lambda>_.
        bind_st (request (Popen [''ipfs'', ''daemon''])
                   (subprocess_Popen env [''ipfs'', ''daemon''])) (\<lambda>_.
        bind_st (emit (Sleep 7)) (\<lambda>_.
        bind_st (request (IpfsConnect ''/ip4/127.0.0.1/tcp/5001/http'')
                   (ipfshttpclient_connect env ''/ip4/127.0.0.1/tcp/5001/http'')) (\<lambda>c.
        bind_st (modify (\<lambda>s. s\<lparr>client := Some c\<rparr>)) (\<lambda>_.
        bind_st (emit (LogInfo StartedIpfsDaemon)) (\<lambda>_.
        emit (LogInfo ConnectedToIpfs))))))))))
       (bind_st (emit (LogWarning NotConnectedToIpfs)) (\<lambda>_.
        modify (\<lambda>s. s\<lparr>client := None\<rparr>)))"

subsection \<open>\<^verbatim>\<open>_compile_contract\<close>\<close>

text \<open>Chained subscripts \<^verbatim>\<open>x[k1][k2]...\<close>.\<close>

fun get_path :: "json \<Rightarrow> string list \<Rightarrow> exn + json" where
  "get_path j [] = Inr j"
| "get_path j (k # ks) = bind_r (getitem j k) (\<lambda>x. get_path x ks)"

text \<open>
  \<^verbatim>\<open>opt["sources"]["BlockCertsOnchaining.sol"]["content"] = source_raw\<close>: the source
  updates the innermost dictionary in place; here the document is rebuilt around it.
\<close>

definition inject_source :: "json \<Rightarrow> string \<Rightarrow> exn + json" where
  "inject_source opt source_raw =
     bind_r (getitem opt ''sources'') (\<lambda>sources.
     bind_r (getitem sources ''BlockCertsOnchaining.sol'') (\<lambda>entry.
     bind_r (setitem entry ''content'' (JStr source_raw)) (\<lambda>entry'.
     bind_r (setitem sources ''BlockCertsOnchaining.sol'' entry') (\<lambda>sources'.
     setitem opt ''sources'' sources'))))"

text \<open>\<^verbatim>\<open>json.loads(x)\<close> on a value of the program: only a string can be parsed.\<close>

fun loads_value :: "env \<Rightarrow> json \<Rightarrow> exn + json" where
  "loads_value env (JStr t) = json_loads env t"
| "loads_value env _ = Inl TypeError"

definition compile_contract :: "env \<Rightarrow> unit prog" where
  "compile_contract env =
     bind_st (request (FileOpen ContractPath ''r'') (read_contract env)) (\<lambda>source_raw.
     bind_st (request (FileOpen CompileDataPath ''r'') (load_compile_data env)) (\<lambda>opt.
     bind_st (lift (inject_source opt source_raw)) (\<lambda>opt'.
     bind_st (request (CompileStandard opt') (compile_standard env opt')) (\<lambda>compiled_sol.
     bind_st (lift (get_path compiled_sol
                [''contracts'', ''BlockCertsOnchaining.sol'', ''BlockCertsOnchaining'',
                 ''evm'', ''bytecode'', ''object''])) (\<lambda>code.
     bind_st (modify (\<lambda>s. s\<lparr>bytecode := code\<rparr>)) (\<lambda>_.
     bind_st (lift (get_path compiled_sol
                [''contracts'', ''BlockCertsOnchaining.sol'', ''BlockCertsOnchaining'',
                 ''metadata''])) (\<lambda>metadata.
     bind_st (lift (loads_value env metadata)) (\<lambda>parsed.
     bind_st (lift (get_path parsed [''output'', ''abi''])) (\<lambda>a.
     modify (\<lambda>s. s\<lparr>abi := a\<rparr>))))))))))"

subsection \<open>\<^verbatim>\<open>_deploy\<close>\<close>

text \<open>\<^verbatim>\<open>open(path, "r")\<close>, \<^verbatim>\<open>read\<close> and \<^verbatim>\<open>json.loads\<close> on a JSON file.\<close>

fun load_json_file :: "json_file \<Rightarrow> exn + json" where
  "load_json_file Absent = Inl FileNotFoundError"
| "load_json_file (Unparseable t) = Inl JSONDecodeError"
| "load_json_file (Doc j) = Inr j"

definition record_key :: string where
  "record_key = ''blockcertsonchaining''"

definition record_data :: "json \<Rightarrow> string \<Rightarrow> json" where
  "record_data a address = JDict [(''abi'', a), (''address'', JStr address)]"

text \<open>
  The block ``saving contract data'' of \<^verbatim>\<open>_deploy\<close> (lines 137 to 147): read the record
  file, set the entry of the fixed key, write the file back. \<^verbatim>\<open>open(path, "w+")\<close>
  empties the file as soon as it succeeds; \<^verbatim>\<open>json.dump\<close> then writes the document
  into it. Every value dumped here comes from \<^verbatim>\<open>json.loads\<close> or is a string, so the
  serialisation itself does not raise.
\<close>

definition save_contract_data :: "env \<Rightarrow> receipt \<Rightarrow> unit prog" where
  "save_contract_data env tx_receipt =
     bind_st (emit (FileOpen ContrInfoPath ''r'')) (\<lambda>_.
     bind_st (gets contr_info_file) (\<lambda>f.
     bind_st (lift (load_json_file f)) (\<lambda>contr_info.
     bind_st (modify (\<lambda>s. s\<lparr>contr_address := contractAddress tx_receipt\<rparr>)) (\<lambda>_.
     bind_st (gets abi) (\<lambda>self_abi.
     bind_st (gets contr_address) (\<lambda>self_contr_address.
     let data = record_data self_abi self_contr_address in
     bind_st (lift (setitem contr_info record_key data)) (\<lambda>contr_info'.
     bind_st (request (FileOpen ContrInfoPath ''w+'') (open_contr_info_w env)) (\<lambda>_.
     bind_st (modify (\<lambda>s. s\<lparr>contr_info_file := Unparseable []\<rparr>)) (\<lambda>_.
     bind_st (emit (FileTruncated ContrInfoPath)) (\<lambda>_.
     bind_st (modify (\<lambda>s. s\<lparr>contr_info_file := Doc contr_info'\<rparr>)) (\<lambda>_.
     emit (FileDumped ContrInfoPath contr_info'))))))))))))"

text \<open>
  \<^verbatim>\<open>buildTransaction\<close> returns the dictionary it is given, completed with fields that
  are not modelled; the transaction that is signed is the one with the nonce and the gas
  limit set here.
\<close>

definition deploy :: "env \<Rightarrow> unit prog" where
  "deploy env =
     bind_st (gets abi) (\<lambda>self_abi.
     bind_st (gets bytecode) (\<lambda>self_bytecode.
     bind_st (lift (eth_contract env self_abi self_bytecode)) (\<lambda>_.
     bind_st (gets pubkey) (\<lambda>acct_addr.
     bind_st (request EthEstimateGas (estimateGas env)) (\<lambda>estimated_gas.
     bind_st (request (EthGetTransactionCount acct_addr)
                (eth_getTransactionCount env acct_addr)) (\<lambda>count.
     let construct_txn = \<lparr>nonce = count, gas = estimated_gas * 2\<rparr> in
     bind_st (request (BuildTransaction construct_txn)
                (buildTransaction env construct_txn)) (\<lambda>_.
     bind_st (lift (sign_transaction env construct_txn)) (\<lambda>rawTransaction.
     bind_st (request (EthSendRawTransaction rawTransaction)
                (eth_sendRawTransaction env rawTransaction)) (\<lambda>tx_hash.
     bind_st (request (EthWaitForTransactionReceipt tx_hash)
                (eth_waitForTransactionReceipt env tx_hash)) (\<lambda>tx_receipt.
     bind_st (emit (LogInfo (GasUsedMsg (gasUsed tx_receipt)))) (\<lambda>_.
     bind_st (save_contract_data env tx_receipt) (\<lambda>_.
     emit (LogInfo (DeployedContr (contractAddress tx_receipt)))))))))))))))"

subsection \<open>\<^verbatim>\<open>_assign_ens\<close>\<close>

definition assign_ens :: "env \<Rightarrow> unit prog" where
  "assign_ens env =
     (let ens_domain = ''blockcerts.eth''; label = ''tub'';
          registry = ''ropsten_ens_registry''; resolver = ''ropsten_ens_resolver'' in
      bind_st (request (ContractConnection registry) (contract_connection env registry)) (\<lambda>_.
      let node = namehash env ens_domain; subdomain = keccak env label;
          owner_args = [node, subdomain, ''0xB4d9313EE835b3d3eE7759826e1F3C3Ac23dFaf3''] in
      bind_st (request (Transact registry ''setSubnodeOwner'' owner_args)
                 (transact env registry ''setSubnodeOwner'' owner_args)) (\<lambda>_.
      let ens_subdomain = label @ ''.'' @ ens_domain; subnode = namehash env ens_subdomain;
          resolver_args = [subnode, ''0x12299799a50340FB860D276805E78550cBaD3De3''] in
      bind_st (request (Transact registry ''setResolver'' resolver_args)
                 (transact env registry ''setResolver'' resolver_args)) (\<lambda>_.
      bind_st (request (ContractConnection resolver) (contract_connection env resolver)) (\<lambda>_.
      bind_st (gets contr_address) (\<lambda>address.
      bind_st (lift (toChecksumAddress env address)) (\<lambda>checksummed.
      bind_st (modify (\<lambda>s. s\<lparr>contr_address := checksummed\<rparr>)) (\<lambda>_.
      bind_st (request (Transact resolver ''setAddr'' [subnode, checksummed])
                 (transact env resolver ''setAddr'' [subnode, checksummed])) (\<lambda>_.
      bind_st (request (Transact resolver ''setName'' [subnode, ens_subdomain])
                 (transact env resolver ''setName'' [subnode, ens_subdomain])) (\<lambda>_.
      let codec = ''ipfs-ns'' in
      bind_st (gets client) (\<lambda>c.
      bind_st (if c \<noteq> None
               then bind_st (gets ipfs_hash) (\<lambda>h.
                    bind_st (lift (content_hash_encode env codec h)) (\<lambda>chash.
                    request (Transact resolver ''setContenthash'' [subnode, chash])
                      (transact env resolver ''setContenthash'' [subnode, chash])))
               else return ()) (\<lambda>_.
      bind_st (request (Call resolver ''addr'' [subnode])
                 (call env resolver ''addr'' [subnode])) (\<lambda>addr.
      bind_st (request (Call resolver ''name'' [subnode])
                 (call env resolver ''name'' [subnode])) (\<lambda>name.
      bind_st (gets client) (\<lambda>c'.
      bind_st (if c' \<noteq> None
               then bind_st (request (Call resolver ''contenthash'' [subnode])
                               (call env resolver ''contenthash'' [subnode])) (\<lambda>raw.
                    lift (content_hash_decode env (bytes_hex env raw)))
               else return ''that is empty'') (\<lambda>content.
      emit (LogInfo (EnsNameSet addr name content))))))))))))))))))"

subsection \<open>\<^verbatim>\<open>_update_ens_content\<close>, \<^verbatim>\<open>do_deploy\<close> and the program\<close>

text \<open>
  The three \<^verbatim>\<open>if\<close> statements of \<^verbatim>\<open>_update_ens_content\<close>: publication of the record
  file (lines 82 to 86), the name binding on ropsten (lines 87 and 88), and the shutdown
  of the content store (lines 89 to 91).
\<close>

definition publish_contr_info :: "env \<Rightarrow> unit prog" where
  "publish_contr_info env =
     bind_st (modify (\<lambda>s. s\<lparr>ipfs_hash := []\<rparr>)) (\<lambda>_.
     bind_st (gets client) (\<lambda>c.
     if c \<noteq> None
     then bind_st (gets contr_info_file) (\<lambda>f.
          bind_st (request (IpfsAdd ContrInfoPath) (client_add env f)) (\<lambda>h.
          bind_st (modify (\<lambda>s. s\<lparr>ipfs_hash := h\<rparr>)) (\<lambda>_.
          bind_st (emit (LogInfo (IpfsHashSet h))) (\<lambda>_.
          emit (LogInfo (CheckAbiOn h))))))
     else return ()))"

definition close_ipfs_connection :: "env \<Rightarrow> unit prog" where
  "close_ipfs_connection env =
     bind_st (gets client) (\<lambda>c.
     if c \<noteq> None
     then bind_st (request (SubprocessRun [''ipfs'', ''shutdown''])
                     (subprocess_run env [''ipfs'', ''shutdown''])) (\<lambda>_.
          request IpfsClose (client_close env))
     else return ())"

definition update_ens_content :: "env \<Rightarrow> unit prog" where
  "update_ens_content env =
     bind_st (publish_contr_info env) (\<lambda>_.
     bind_st (gets current_chain) (\<lambda>chain.
     bind_st (if chain = ''ropsten'' then assign_ens env else return ()) (\<lambda>_.
     close_ipfs_connection env)))"

definition do_deploy :: "env \<Rightarrow> unit prog" where
  "do_deploy env =
     bind_st (open_ipfs_connection env) (\<lambda>_.
     bind_st (compile_contract env) (\<lambda>_.
     bind_st (deploy env) (\<lambda>_.
     update_ens_content env)))"

text \<open>\<^verbatim>\<open>ContractDeployer().do_deploy()\<close>, from a fresh object and a given record file.\<close>

definition main :: "env \<Rightarrow> unit prog" where
  "main env = bind_st (init env) (\<lambda>_. do_deploy env)"

definition fresh :: "json_file \<Rightarrow> state" where
  "fresh f = \<lparr>current_chain = [], pubkey = [], client = None, bytecode = JNull, abi = JNull,
     contr_address = [], ipfs_hash = [], contr_info_file = f, trace = []\<rparr>"

definition run :: "env \<Rightarrow> json_file \<Rightarrow> (exn + unit) \<times> state" where
  "run env f = main env (fresh f)"

section \<open>Reading a trace\<close>

text \<open>Events that change the record file.\<close>

fun record_write :: "event \<Rightarrow> bool" where
  "record_write (FileTruncated p) = True"
| "record_write (FileDumped p j) = True"
| "record_write _ = False"

text \<open>Calls to the naming registry and its resolver.\<close>

fun registry_call :: "event \<Rightarrow> bool" where
  "registry_call (ContractConnection c) = True"
| "registry_call (Transact c m args) = True"
| "registry_call (Call c m args) = True"
| "registry_call _ = False"

text \<open>Calls to the content store through the connected client or to its daemon.\<close>

fun content_store_call :: "event \<Rightarrow> bool" where
  "content_store_call (IpfsAdd p) = True"
| "content_store_call (SubprocessRun cmd) = True"
| "content_store_call IpfsClose = True"
| "content_store_call _ = False"

text \<open>Calls that change the state of the chain.\<close>

fun network_mutating :: "event \<Rightarrow> bool" where
  "network_mutating (EthSendRawTransaction raw) = True"
| "network_mutating (Transact c m args) = True"
| "network_mutating _ = False"

text \<open>A wait for a receipt that came back with a receipt.\<close>

fun receipt_returned :: "env \<Rightarrow> event \<Rightarrow> bool" where
  "receipt_returned env (EthWaitForTransactionReceipt h) =
     (case eth_waitForTransactionReceipt env h of Inl e \<Rightarrow> False | Inr r \<Rightarrow> True)"
| "receipt_returned env _ = False"

text \<open>No event changes the record file before a receipt has come back.\<close>

fun no_write_before_receipt :: "env \<Rightarrow> event list \<Rightarrow> bool" where
  "no_write_before_receipt env [] = True"
| "no_write_before_receipt env (e # es) =
     (if receipt_returned env e then True
      else \<not> record_write e \<and> no_write_before_receipt env es)"

text \<open>The successive contents of the record file, replayed from a trace.\<close>

fun file_states :: "json_file \<Rightarrow> event list \<Rightarrow> json_file list" where
  "file_states f [] = [f]"
| "file_states f (FileTruncated p # es) = f # file_states (Unparseable []) es"
| "file_states f (FileDumped p j # es) = f # file_states (Doc j) es"
| "file_states f (e # es) = file_states f es"

text \<open>The method names of the registry transactions of a trace, in order.\<close>

fun transactions :: "event list \<Rightarrow> string list" where
  "transactions [] = []"
| "transactions (Transact c m args # es) = m # transactions es"
| "transactions (e # es) = transactions es"

text \<open>A transaction is built with twice the estimated gas.\<close>

fun gas_doubled :: "env \<Rightarrow> event \<Rightarrow> bool" where
  "gas_doubled env (BuildTransaction t) =
     (case estimateGas env of Inl e \<Rightarrow> False | Inr g \<Rightarrow> gas t = 2 * g)"
| "gas_doubled env _ = True"

text \<open>
  The connection to the content store succeeds: every step in the \<^verbatim>\<open>try\<close> block of
  \<^verbatim>\<open>_open_ipfs_connection\<close> returns.
\<close>

definition connects :: "env \<Rightarrow> bool" where
  "connects env =
     (open_devnull env = Inr () \<and>
      subprocess_Popen env [''ipfs'', ''init''] = Inr () \<and>
      subprocess_Popen env [''ipfs'', ''daemon''] = Inr () \<and>
      ipfshttpclient_connect env ''/ip4/127.0.0.1/tcp/5001/http'' = Inr ())"

section \<open>A sample world\<close>

text \<open>
  A world in which every collaborator answers: the account holds 5000000 at gas price
  2, the compiler returns a contract with a one-method interface, the dry run estimates
  100000 gas, and the contract is created at \<open>0xc0ffee\<close>.
\<close>

definition sample_abi :: json where
  "sample_abi = JList [JDict [(''name'', JStr ''issue''), (''type'', JStr ''function'')]]"

definition sample_options :: json where
  "sample_options = JDict [(''language'', JStr ''Solidity''),
     (''sources'', JDict [(''BlockCertsOnchaining.sol'', JDict [])])]"

definition sample_compiled :: json where
  "sample_compiled = JDict [(''contracts'', JDict [(''BlockCertsOnchaining.sol'',
     JDict [(''BlockCertsOnchaining'',
       JDict [(''evm'', JDict [(''bytecode'', JDict [(''object'', JStr ''6080'')])]),
              (''metadata'', JStr ''META'')])])])]"

definition sample_env :: env where
  "sample_env = \<lparr>
     config_current_chain = ''ropsten'',
     MakeW3 = Inr ''0xA11ce'',
     eth_gasPrice = Inr 2,
     eth_getBalance = (\<lambda>_. Inr 5000000),
     open_devnull = Inr (),
     subprocess_Popen = (\<lambda>_. Inr ()),
     ipfshttpclient_connect = (\<lambda>_. Inr ()),
     read_contract = Inr ''contract BlockCertsOnchaining {}'',
     load_compile_data = Inr sample_options,
     compile_standard = (\<lambda>_. Inr sample_compiled),
     json_loads = (\<lambda>t. if t = ''META''
                       then Inr (JDict [(''output'', JDict [(''abi'', sample_abi)])])
                       else Inl JSONDecodeError),
     eth_contract = (\<lambda>_ _. Inr ()),
     estimateGas = Inr 100000,
     eth_getTransactionCount = (\<lambda>_. Inr 7),
     buildTransaction = (\<lambda>_. Inr ()),
     sign_transaction = (\<lambda>_. Inr ''signed''),
     eth_sendRawTransaction = (\<lambda>_. Inr ''0xhash''),
     eth_waitForTransactionReceipt =
       (\<lambda>_. Inr \<lparr>contractAddress = ''0xc0ffee'', gasUsed = 90000\<rparr>),
     open_contr_info_w = Inr (),
     client_add = (\<lambda>_. Inr ''Qm1''),
     subprocess_run = (\<lambda>_. Inr ()),
     client_close = Inr (),
     contract_connection = (\<lambda>_. Inr ()),
     namehash = (\<lambda>n. ''namehash:'' @ n),
     keccak = (\<lambda>n. ''keccak:'' @ n),
     transact = (\<lambda>_ _ _. Inr ()),
     call = (\<lambda>_ m _. Inr (''value of '' @ m)),
     toChecksumAddress = (\<lambda>a. Inr a),
     content_hash_encode = (\<lambda>codec h. Inr (codec @ '':'' @ h)),
     content_hash_decode = (\<lambda>t. Inr t),
     bytes_hex = (\<lambda>b. b)\<rparr>"

text \<open>A record file that already holds the entry of another contract.\<close>

definition sample_file :: json_file where
  "sample_file = Doc (JDict [(''other'', JDict [(''abi'', JList []), (''address'', JStr ''0x01'')])])"

text \<open>Variants of the sample world, and a deployer on ropsten with a connected client.\<close>

definition poor_env :: env where
  "poor_env = sample_env\<lparr>eth_getBalance := \<lambda>_. Inr 1199999\<rparr>"

definition timeout_env :: env where
  "timeout_env = sample_env\<lparr>eth_waitForTransactionReceipt := \<lambda>_. Inl (Failure ''timeout'')\<rparr>"

definition rejecting_env :: env where
  "rejecting_env = sample_env\<lparr>transact := \<lambda>c m args.
     if m = ''setResolver'' then Inl (Failure ''reverted'') else Inr ()\<rparr>"

definition mainnet_env :: env where
  "mainnet_env = sample_env\<lparr>config_current_chain := ''mainnet''\<rparr>"

definition offline_env :: env where
  "offline_env = sample_env\<lparr>ipfshttpclient_connect := \<lambda>_. Inl (Failure ''refused'')\<rparr>"

definition second_env :: env where
  "second_env = sample_env\<lparr>eth_waitForTransactionReceipt :=
     \<lambda>_. Inr \<lparr>contractAddress = ''0xbeef'', gasUsed = 80000\<rparr>\<rparr>"

definition connected_state :: state where
  "connected_state = (fresh sample_file)\<lparr>current_chain := ''ropsten'', client := Some ()\<rparr>"

section \<open>Notions used in the proofs\<close>

text \<open>
  \<open>emits P m\<close>: from every state, \<open>m\<close> only appends events to the trace, and each of
  them satisfies \<open>P\<close>. \<open>keeps g m\<close>: \<open>m\<close> leaves the component \<open>g\<close> of the state as it
  was. \<open>prelude\<close> is the part of the program that comes before \<^verbatim>\<open>_deploy\<close>.
\<close>

definition emits :: "(event \<Rightarrow> bool) \<Rightarrow> 'a prog \<Rightarrow> bool" where
  "emits P m = (\<forall>s. \<exists>evs. trace (snd (m s)) = trace s @ evs \<and> list_all P evs)"

definition keeps :: "(state \<Rightarrow> 'b) \<Rightarrow> 'a prog \<Rightarrow> bool" where
  "keeps g m = (\<forall>s. g (snd (m s)) = g s)"

definition prelude :: "env \<Rightarrow> unit prog" where
  "prelude env = bind_st (init env) (\<lambda>_. bind_st (open_ipfs_connection env) (\<lambda>_. compile_contract env))"

section \<open>Lemmas\<close>

subsection \<open>Sequencing\<close>

lemmas prog_defs = bind_st_def return_def lift_def gets_def modify_def emit_def request_def try_except_def

lemma bind_st_assoc: "bind_st (bind_st m f) g = bind_st m (\<lambda>x. bind_st (f x) g)"
  by (rule ext) (simp add: bind_st_def split: prod.splits sum.splits)

lemma emits_bind_cond:
  assumes "emits P m" and "\<And>x s. fst (m s) = Inr x \<Longrightarrow> emits P (f x)"
  shows "emits P (bind_st m f)"
proof (unfold emits_def, intro allI)
  fix s
  obtain r s1 where m: "m s = (r, s1)" by (cases "m s")
  from assms(1) m obtain e1 where e1: "trace s1 = trace s @ e1" "list_all P e1"
    unfolding emits_def by (metis snd_conv)
  show "\<exists>evs. trace (snd (bind_st m f s)) = trace s @ evs \<and> list_all P evs"
  proof (cases r)
    case (Inl e)
    with m e1 show ?thesis by (auto simp: bind_st_def)
  next
    case (Inr x)
    with m have "emits P (f x)" by (intro assms(2)[of s]) simp
    then obtain e2 where "trace (snd (f x s1)) = trace s1 @ e2" "list_all P e2"
      unfolding emits_def by blast
    with m e1 Inr show ?thesis by (auto simp: bind_st_def)
  qed
qed

lemma emits_bind: "emits P m \<Longrightarrow> (\<And>x. emits P (f x)) \<Longrightarrow> emits P (bind_st m f)"
  by (rule emits_bind_cond)

lemma emits_request: "P ev \<Longrightarrow> emits P (request ev r)"
  by (simp add: emits_def prog_defs)

lemma emits_request_bind:
  assumes "P ev" and "\<And>x. r = Inr x \<Longrightarrow> emits P (f x)"
  shows "emits P (bind_st (request ev r) f)"
proof (rule emits_bind_cond)
  show "emits P (request ev r)" using assms(1) by (simp add: emits_def prog_defs)
next
  fix x s
  assume "fst (request ev r s) = Inr x"
  then have "r = Inr x" by (simp add: prog_defs)
  then show "emits P (f x)" by (rule assms(2))
qed

lemma emits_emit: "P ev \<Longrightarrow> emits P (emit ev)"
  by (simp add: emits_def prog_defs)

lemma emits_lift: "emits P (lift r)"
  by (simp add: emits_def prog_defs)

lemma emits_return: "emits P (return x)"
  by (simp add: emits_def prog_defs)

lemma emits_gets: "emits P (gets g)"
  by (simp add: emits_def prog_defs)

lemma emits_modify: "(\<And>s. trace (g s) = trace s) \<Longrightarrow> emits P (modify g)"
  by (simp add: emits_def prog_defs)

lemma emits_if: "emits P a \<Longrightarrow> emits P b \<Longrightarrow> emits P (if c then a else b)"
  by simp

lemma emits_try:
  assumes "emits P b" and "emits P h"
  shows "emits P (try_except b h)"
proof (unfold emits_def, intro allI)
  fix s
  obtain r s1 where m: "b s = (r, s1)" by (cases "b s")
  from assms(1) m obtain e1 where e1: "trace s1 = trace s @ e1" "list_all P e1"
    unfolding emits_def by (metis snd_conv)
  from assms(2) obtain e2 where e2: "trace (snd (h s1)) = trace s1 @ e2" "list_all P e2"
    unfolding emits_def by blast
  show "\<exists>evs. trace (snd (try_except b h s)) = trace s @ evs \<and> list_all P evs"
    using m e1 e2 by (cases r) (auto simp: try_except_def)
qed

lemma emits_mono: "emits P m \<Longrightarrow> (\<And>e. P e \<Longrightarrow> Q e) \<Longrightarrow> emits Q m"
  unfolding emits_def by (metis (mono_tags, lifting) list_all_iff)

lemmas emits_intros = emits_request_bind emits_bind emits_request emits_emit emits_lift emits_return
  emits_gets emits_modify emits_if emits_try

lemma keeps_bind: "keeps g m \<Longrightarrow> (\<And>x. keeps g (f x)) \<Longrightarrow> keeps g (bind_st m f)"
  by (auto simp: keeps_def bind_st_def split: prod.splits sum.splits) (metis snd_conv)+

lemma keeps_try: "keeps g b \<Longrightarrow> keeps g h \<Longrightarrow> keeps g (try_except b h)"
  by (auto simp: keeps_def try_except_def split: prod.splits sum.splits) (metis snd_conv)+

lemma keeps_request: "(\<And>s t. g (s\<lparr>trace := t\<rparr>) = g s) \<Longrightarrow> keeps g (request ev r)"
  by (simp add: keeps_def prog_defs)

lemma keeps_emit: "(\<And>s t. g (s\<lparr>trace := t\<rparr>) = g s) \<Longrightarrow> keeps g (emit ev)"
  by (simp add: keeps_def prog_defs)

lemma keeps_lift: "keeps g (lift r)"
  by (simp add: keeps_def prog_defs)

lemma keeps_return: "keeps g (return x)"
  by (simp add: keeps_def prog_defs)

lemma keeps_gets: "keeps g (gets h)"
  by (simp add: keeps_def prog_defs)

lemma keeps_modify: "(\<And>s. g (h s) = g s) \<Longrightarrow> keeps g (modify h)"
  by (simp add: keeps_def prog_defs)

lemma keeps_if: "keeps g a \<Longrightarrow> keeps g b \<Longrightarrow> keeps g (if c then a else b)"
  by simp

lemmas keeps_intros = keeps_bind keeps_try keeps_request keeps_emit keeps_lift keeps_return
  keeps_gets keeps_modify keeps_if

subsection \<open>What each method emits and keeps\<close>

lemma init_emits:
  assumes "P MakeW3Call" "P EthGasPrice" "\<And>a. P (EthGetBalance a)"
  shows "emits P (init env)"
  unfolding init_def check_balance_def Let_def
  by (intro emits_intros assms) simp_all

lemma open_ipfs_emits:
  assumes "\<And>m. P (LogInfo m)" "\<And>m. P (LogWarning m)" "\<And>c. P (Popen c)" "\<And>n. P (Sleep n)" "\<And>a. P (IpfsConnect a)"
  shows "emits P (open_ipfs_connection env)"
  unfolding open_ipfs_connection_def
  by (intro emits_intros assms) simp_all

lemma compile_emits:
  assumes "\<And>m. P (FileOpen ContractPath m)" "\<And>m. P (FileOpen CompileDataPath m)" "\<And>j. P (CompileStandard j)"
  shows "emits P (compile_contract env)"
  unfolding compile_contract_def
  by (intro emits_intros assms) simp_all

lemma assign_ens_emits:
  assumes "\<And>m. P (LogInfo m)" "\<And>e. registry_call e \<Longrightarrow> P e"
  shows "emits P (assign_ens env)"
  unfolding assign_ens_def Let_def
  by (intro emits_intros assms) simp_all

lemma publish_emits:
  assumes "\<And>m. P (LogInfo m)" "\<And>p. P (IpfsAdd p)"
  shows "emits P (publish_contr_info env)"
  unfolding publish_contr_info_def
  by (intro emits_intros assms) simp_all

lemma close_emits:
  assumes "\<And>e. content_store_call e \<Longrightarrow> P e"
  shows "emits P (close_ipfs_connection env)"
  unfolding close_ipfs_connection_def
  by (intro emits_intros assms) simp_all

lemma deploy_emits:
  assumes "\<And>m. P (LogInfo m)" "P EthEstimateGas" "\<And>a. P (EthGetTransactionCount a)"
    "\<And>g n. estimateGas env = Inr g \<Longrightarrow> P (BuildTransaction \<lparr>nonce = n, gas = g * 2\<rparr>)"
    "\<And>r. P (EthSendRawTransaction r)" "\<And>h. P (EthWaitForTransactionReceipt h)"
    "\<And>m. P (FileOpen ContrInfoPath m)" "\<And>e. record_write e \<Longrightarrow> P e"
  shows "emits P (deploy env)"
  unfolding deploy_def save_contract_data_def Let_def
  by (intro emits_intros assms) simp_all

lemma main_prelude:
  "main env = bind_st (prelude env) (\<lambda>_. bind_st (deploy env) (\<lambda>_. update_ens_content env))"
  by (simp add: main_def do_deploy_def prelude_def bind_st_assoc)

lemma init_keeps:
  assumes "\<And>s t. g (s\<lparr>trace := t\<rparr>) = g s" "\<And>s v. g (s\<lparr>current_chain := v\<rparr>) = g s"
    "\<And>s v. g (s\<lparr>pubkey := v\<rparr>) = g s"
  shows "keeps g (init env)"
  unfolding init_def check_balance_def Let_def
  by (intro keeps_intros assms)

lemma open_ipfs_keeps:
  assumes "\<And>s t. g (s\<lparr>trace := t\<rparr>) = g s" "\<And>s v. g (s\<lparr>client := v\<rparr>) = g s"
  shows "keeps g (open_ipfs_connection env)"
  unfolding open_ipfs_connection_def
  by (intro keeps_intros assms)

lemma compile_keeps:
  assumes "\<And>s t. g (s\<lparr>trace := t\<rparr>) = g s" "\<And>s v. g (s\<lparr>bytecode := v\<rparr>) = g s"
    "\<And>s v. g (s\<lparr>abi := v\<rparr>) = g s"
  shows "keeps g (compile_contract env)"
  unfolding compile_contract_def
  by (intro keeps_intros assms)

lemma deploy_keeps:
  assumes "\<And>s t. g (s\<lparr>trace := t\<rparr>) = g s" "\<And>s v. g (s\<lparr>contr_address := v\<rparr>) = g s"
    "\<And>s v. g (s\<lparr>contr_info_file := v\<rparr>) = g s"
  shows "keeps g (deploy env)"
  unfolding deploy_def save_contract_data_def Let_def
  by (intro keeps_intros assms)

lemma assign_ens_keeps:
  assumes "\<And>s t. g (s\<lparr>trace := t\<rparr>) = g s" "\<And>s v. g (s\<lparr>contr_address := v\<rparr>) = g s"
  shows "keeps g (assign_ens env)"
  unfolding assign_ens_def Let_def
  by (intro keeps_intros assms)

lemma publish_keeps:
  assumes "\<And>s t. g (s\<lparr>trace := t\<rparr>) = g s" "\<And>s v. g (s\<lparr>ipfs_hash := v\<rparr>) = g s"
  shows "keeps g (publish_contr_info env)"
  unfolding publish_contr_info_def
  by (intro keeps_intros assms)

lemma close_keeps:
  assumes "\<And>s t. g (s\<lparr>trace := t\<rparr>) = g s"
  shows "keeps g (close_ipfs_connection env)"
  unfolding close_ipfs_connection_def
  by (intro keeps_intros assms)

lemma update_keeps:
  assumes "\<And>s t. g (s\<lparr>trace := t\<rparr>) = g s" "\<And>s v. g (s\<lparr>ipfs_hash := v\<rparr>) = g s"
    "\<And>s v. g (s\<lparr>contr_address := v\<rparr>) = g s"
  shows "keeps g (update_ens_content env)"
  unfolding update_ens_content_def
  by (intro keeps_intros publish_keeps assign_ens_keeps close_keeps assms)

lemma update_emits:
  assumes "\<And>m. P (LogInfo m)" "\<And>e. content_store_call e \<Longrightarrow> P e" "\<And>e. registry_call e \<Longrightarrow> P e"
  shows "emits P (update_ens_content env)"
  unfolding update_ens_content_def
  by (intro emits_intros publish_emits assign_ens_emits close_emits assms) simp_all

lemma prelude_emits:
  assumes "P MakeW3Call" "P EthGasPrice" "\<And>a. P (EthGetBalance a)"
    "\<And>m. P (LogInfo m)" "\<And>m. P (LogWarning m)" "\<And>c. P (Popen c)" "\<And>n. P (Sleep n)"
    "\<And>a. P (IpfsConnect a)"
    "\<And>m. P (FileOpen ContractPath m)" "\<And>m. P (FileOpen CompileDataPath m)"
    "\<And>j. P (CompileStandard j)"
  shows "emits P (prelude env)"
  unfolding prelude_def
  by (intro emits_intros init_emits open_ipfs_emits compile_emits assms)

lemma prelude_keeps_file: "keeps contr_info_file (prelude env)"
  unfolding prelude_def
  by (intro keeps_intros init_keeps open_ipfs_keeps compile_keeps) simp_all

lemma deploy_effect:
  "\<exists>evs. trace (snd (deploy env s)) = trace s @ evs \<and> no_write_before_receipt env evs \<and>
     ((list_all (\<lambda>e. \<not> record_write e) evs \<and> contr_info_file (snd (deploy env s)) = contr_info_file s \<and>
       fst (deploy env s) \<noteq> Inr ())
      \<or> (\<exists>d r h. contr_info_file s = Doc (JDict d) \<and> eth_waitForTransactionReceipt env h = Inr r \<and>
           file_states (contr_info_file s) evs =
             [contr_info_file s, Unparseable [],
              Doc (JDict (dict_setitem record_key (record_data (abi s) (contractAddress r)) d))] \<and>
           contr_info_file (snd (deploy env s)) =
              Doc (JDict (dict_setitem record_key (record_data (abi s) (contractAddress r)) d)) \<and>
           fst (deploy env s) = Inr ()))"
  apply (simp add: deploy_def save_contract_data_def prog_defs Let_def split: sum.splits prod.splits)
  apply (cases "contr_info_file s")
  apply (auto split: sum.splits elim!: setitem.elims)
  done

subsection \<open>Dictionaries, traces and the whole run\<close>

lemma dict_setitem_map_of: "map_of (dict_setitem k v d) = (map_of d)(k \<mapsto> v)"
  by (induction d) (auto simp: fun_eq_iff)

lemma dict_setitem_twice: "dict_setitem k v (dict_setitem k v' d) = dict_setitem k v d"
  by (induction d) auto

lemma dict_setitem_keys:
  "map fst (dict_setitem k v d) = (if k \<in> set (map fst d) then map fst d else map fst d @ [k])"
  by (induction d) force+

lemma keepsD: "keeps g m \<Longrightarrow> g (snd (m s)) = g s"
  by (simp add: keeps_def)

lemma emitsD: "emits P m \<Longrightarrow> \<exists>evs. trace (snd (m s)) = trace s @ evs \<and> list_all P evs"
  by (simp add: emits_def)

lemma quiet_no_write_before_receipt:
  "list_all (\<lambda>e. \<not> record_write e) tr \<Longrightarrow> no_write_before_receipt env tr"
  by (induction tr) auto

lemma no_write_before_receipt_append_left:
  "list_all (\<lambda>e. \<not> record_write e) a \<Longrightarrow> no_write_before_receipt env b \<Longrightarrow>
   no_write_before_receipt env (a @ b)"
  by (induction a) auto

lemma no_write_before_receipt_append_right:
  "no_write_before_receipt env a \<Longrightarrow> list_all (\<lambda>e. \<not> record_write e) b \<Longrightarrow>
   no_write_before_receipt env (a @ b)"
  by (induction a) (auto simp: quiet_no_write_before_receipt)


lemma file_states_append_left:
  "list_all (\<lambda>e. \<not> record_write e) a \<Longrightarrow> file_states f (a @ b) = file_states f b"
proof (induction a)
  case Nil
  then show ?case by simp
next
  case (Cons e a)
  then show ?case by (cases e) simp_all
qed

lemma file_states_append_right:
  "list_all (\<lambda>e. \<not> record_write e) b \<Longrightarrow> file_states f (a @ b) = file_states f a"
proof (induction f a rule: file_states.induct)
  case (1 f)
  from file_states_append_left[OF 1, of f "[]"] show ?case by simp
qed simp_all

lemma file_states_quiet: "list_all (\<lambda>e. \<not> record_write e) tr \<Longrightarrow> file_states f tr = [f]"
  using file_states_append_left[of tr f "[]"] by simp

lemma run_prelude:
  "run env f = bind_st (prelude env) (\<lambda>_. bind_st (deploy env) (\<lambda>_. update_ens_content env)) (fresh f)"
  by (simp add: run_def main_prelude)

lemma run_summary:
  "no_write_before_receipt env (trace (snd (run env f))) \<and>
   ((file_states f (trace (snd (run env f))) = [f] \<and> contr_info_file (snd (run env f)) = f \<and>
     fst (run env f) \<noteq> Inr ())
    \<or> (\<exists>d r h. f = Doc (JDict d) \<and> eth_waitForTransactionReceipt env h = Inr r \<and>
          file_states f (trace (snd (run env f))) =
            [f, Unparseable [],
             Doc (JDict (dict_setitem record_key
                    (record_data (abi (snd (run env f))) (contractAddress r)) d))] \<and>
          contr_info_file (snd (run env f)) =
             Doc (JDict (dict_setitem record_key
                    (record_data (abi (snd (run env f))) (contractAddress r)) d))))"
  (is "?A (snd (run env f)) \<and> (?B1 (run env f) \<or> ?B2 (snd (run env f)))")
proof -
  let ?quiet = "\<lambda>e. \<not> record_write e"
  obtain r3 s3 where p: "prelude env (fresh f) = (r3, s3)" by (cases "prelude env (fresh f)")
  have "emits ?quiet (prelude env)" by (rule prelude_emits) simp_all
  from emitsD[OF this, of "fresh f"] p obtain e1 where e1: "trace s3 = e1" "list_all ?quiet e1"
    by (auto simp: fresh_def)
  have f3: "contr_info_file s3 = f"
    using keepsD[OF prelude_keeps_file, of env "fresh f"] p by (simp add: fresh_def)
  show ?thesis
  proof (cases r3)
    case (Inl e)
    with p have "run env f = (Inl e, s3)" by (simp add: run_prelude bind_st_def)
    with e1 f3 show ?thesis
      by (simp add: quiet_no_write_before_receipt file_states_quiet)
  next
    case (Inr u)
    obtain r4 s4 where d: "deploy env s3 = (r4, s4)" by (cases "deploy env s3")
    from deploy_effect[of env s3] d obtain e2 where
      e2: "trace s4 = trace s3 @ e2" "no_write_before_receipt env e2" and
      alt: "(list_all ?quiet e2 \<and> contr_info_file s4 = contr_info_file s3 \<and> r4 \<noteq> Inr ())
        \<or> (\<exists>d r h. contr_info_file s3 = Doc (JDict d) \<and> eth_waitForTransactionReceipt env h = Inr r \<and>
           file_states (contr_info_file s3) e2 =
             [contr_info_file s3, Unparseable [],
              Doc (JDict (dict_setitem record_key (record_data (abi s3) (contractAddress r)) d))] \<and>
           contr_info_file s4 =
              Doc (JDict (dict_setitem record_key (record_data (abi s3) (contractAddress r)) d)) \<and>
           r4 = Inr ())"
      by auto
    have "keeps abi (deploy env)" by (rule deploy_keeps) simp_all
    from keepsD[OF this, of s3] d have a4: "abi s4 = abi s3" by simp
    show ?thesis
    proof (cases r4)
      case (Inl e)
      with p d Inr have r: "run env f = (Inl e, s4)" by (simp add: run_prelude bind_st_def)
      from alt Inl have q: "list_all ?quiet e2" "contr_info_file s4 = contr_info_file s3" by auto
      with r e1 e2 f3 show ?thesis
        by (simp add: quiet_no_write_before_receipt file_states_quiet)
    next
      case (Inr u')
      with p d \<open>r3 = Inr u\<close> have r: "run env f = update_ens_content env s4"
        by (simp add: run_prelude bind_st_def)
      have "emits ?quiet (update_ens_content env)"
        by (rule update_emits) (auto elim: content_store_call.elims registry_call.elims)
      from emitsD[OF this, of s4] obtain e3 where
        e3: "trace (snd (update_ens_content env s4)) = trace s4 @ e3" "list_all ?quiet e3"
        by blast
      have "keeps contr_info_file (update_ens_content env)" "keeps abi (update_ens_content env)"
        by (rule update_keeps; simp)+
      then have k: "contr_info_file (snd (update_ens_content env s4)) = contr_info_file s4"
        "abi (snd (update_ens_content env s4)) = abi s4"
        by (simp_all add: keepsD)
      from alt Inr obtain d0 r0 h0 where w: "contr_info_file s3 = Doc (JDict d0)"
        "eth_waitForTransactionReceipt env h0 = Inr r0"
        "file_states (contr_info_file s3) e2 =
             [contr_info_file s3, Unparseable [],
              Doc (JDict (dict_setitem record_key (record_data (abi s3) (contractAddress r0)) d0))]"
        "contr_info_file s4 =
              Doc (JDict (dict_setitem record_key (record_data (abi s3) (contractAddress r0)) d0))"
        by auto
      have A: "?A (snd (run env f))"
        using r e1 e2 e3
        by (simp add: no_write_before_receipt_append_left no_write_before_receipt_append_right)
      have "file_states f (trace (snd (run env f))) = file_states f e2"
        using r e1 e2 e3 file_states_append_right[OF e3(2), of f "e1 @ e2"]
        by (simp add: file_states_append_left)
      with w f3 k a4 r have "?B2 (snd (run env f))" by auto
      with A show ?thesis by blast
    qed
  qed
qed

subsection \<open>Evaluation, and the run in the sample world\<close>

lemmas run_defs = run_def main_def fresh_def init_def check_balance_def do_deploy_def
  open_ipfs_connection_def compile_contract_def deploy_def save_contract_data_def
  update_ens_content_def publish_contr_info_def close_ipfs_connection_def assign_ens_def
  inject_source_def bind_r_def record_key_def record_data_def

lemmas sample_defs = sample_env_def sample_abi_def sample_options_def sample_compiled_def
  sample_file_def poor_env_def timeout_env_def rejecting_env_def mainnet_env_def offline_env_def
  second_env_def connected_state_def

lemma file_states_writes:
  "length (file_states f tr) = Suc (length (filter record_write tr))"
  by (induction f tr rule: file_states.induct) simp_all

lemma file_states_single: "file_states f tr = [f] \<Longrightarrow> \<not> list_ex record_write tr"
  using file_states_writes[of f tr] by (simp add: list_ex_iff filter_empty_conv)

lemma save_contract_data_dict:
  assumes "contr_info_file s = Doc (JDict d)" and "open_contr_info_w env = Inr ()"
  shows "save_contract_data env r s =
    (Inr (), s\<lparr>contr_address := contractAddress r,
       contr_info_file :=
         Doc (JDict (dict_setitem record_key (record_data (abi s) (contractAddress r)) d)),
       trace := trace s @ [FileOpen ContrInfoPath ''r'', FileOpen ContrInfoPath ''w+'',
         FileTruncated ContrInfoPath,
         FileDumped ContrInfoPath
           (JDict (dict_setitem record_key (record_data (abi s) (contractAddress r)) d))]\<rparr>)"
  using assms by (simp add: save_contract_data_def prog_defs Let_def)

lemma sample_run:
  "run sample_env sample_file =
    (Inr (),
     \<lparr>current_chain = ''ropsten'', pubkey = ''0xA11ce'', client = Some (),
        bytecode = JStr ''6080'', abi = sample_abi,
        contr_address = ''0xc0ffee'', ipfs_hash = ''Qm1'',
        contr_info_file =
          Doc (JDict
            [(''other'', JDict [(''abi'', JList []), (''address'', JStr ''0x01'')]),
             (''blockcertsonchaining'',
              JDict [(''abi'', sample_abi), (''address'', JStr ''0xc0ffee'')])]),
        trace =
          [MakeW3Call, EthGasPrice, EthGetBalance ''0xA11ce'',
           LogInfo TryingToStartIpfs, Popen [''ipfs'', ''init''],
           Popen [''ipfs'', ''daemon''], Sleep 7,
           IpfsConnect ''/ip4/127.0.0.1/tcp/5001/http'',
           LogInfo StartedIpfsDaemon, LogInfo ConnectedToIpfs,
           FileOpen ContractPath ''r'', FileOpen CompileDataPath ''r'',
           CompileStandard
            (JDict
              [(''language'', JStr ''Solidity''),
               (''sources'',
                JDict
                 [(''BlockCertsOnchaining.sol'',
                   JDict [(''content'', JStr ''contract BlockCertsOnchaining {}'')])])]),
           EthEstimateGas, EthGetTransactionCount ''0xA11ce'',
           BuildTransaction \<lparr>nonce = 7, gas = 200000\<rparr>,
           EthSendRawTransaction ''signed'',
           EthWaitForTransactionReceipt ''0xhash'', LogInfo (GasUsedMsg 90000),
           FileOpen ContrInfoPath ''r'', FileOpen ContrInfoPath ''w+'',
           FileTruncated ContrInfoPath,
           FileDumped ContrInfoPath
            (JDict
              [(''other'', JDict [(''abi'', JList []), (''address'', JStr ''0x01'')]),
               (''blockcertsonchaining'',
                JDict [(''abi'', sample_abi), (''address'', JStr ''0xc0ffee'')])]),
           LogInfo (DeployedContr ''0xc0ffee''), IpfsAdd ContrInfoPath,
           LogInfo (IpfsHashSet ''Qm1''), LogInfo (CheckAbiOn ''Qm1''),
           ContractConnection ''ropsten_ens_registry'',
           Transact ''ropsten_ens_registry'' ''setSubnodeOwner''
            [''namehash:blockcerts.eth'', ''keccak:tub'',
             ''0xB4d9313EE835b3d3eE7759826e1F3C3Ac23dFaf3''],
           Transact ''ropsten_ens_registry'' ''setResolver''
            [''namehash:tub.blockcerts.eth'', ''0x12299799a50340FB860D276805E78550cBaD3De3''],
           ContractConnection ''ropsten_ens_resolver'',
           Transact ''ropsten_ens_resolver'' ''setAddr''
            [''namehash:tub.blockcerts.eth'', ''0xc0ffee''],
           Transact ''ropsten_ens_resolver'' ''setName''
            [''namehash:tub.blockcerts.eth'', ''tub.blockcerts.eth''],
           Transact ''ropsten_ens_resolver'' ''setContenthash''
            [''namehash:tub.blockcerts.eth'', ''ipfs-ns:Qm1''],
           Call ''ropsten_ens_resolver'' ''addr'' [''namehash:tub.blockcerts.eth''],
           Call ''ropsten_ens_resolver'' ''name'' [''namehash:tub.blockcerts.eth''],
           Call ''ropsten_ens_resolver'' ''contenthash'' [''namehash:tub.blockcerts.eth''],
           LogInfo (EnsNameSet ''value of addr'' ''value of name'' ''value of contenthash''),
           SubprocessRun [''ipfs'', ''shutdown''], IpfsClose]\<rparr>)"
  by (simp add: run_defs prog_defs sample_defs Let_def)

subsection \<open>More on the whole run\<close>

lemma dict_setitem_has_key: "k \<in> set (map fst (dict_setitem k v d))"
  by (induction d) force+

lemma run_dict_cases:
  "contr_info_file (snd (run env (Doc (JDict d)))) = Doc (JDict d) \<and>
     fst (run env (Doc (JDict d))) \<noteq> Inr ()
   \<or> (\<exists>r h. eth_waitForTransactionReceipt env h = Inr r \<and>
         contr_info_file (snd (run env (Doc (JDict d)))) =
           Doc (JDict (dict_setitem record_key
             (record_data (abi (snd (run env (Doc (JDict d))))) (contractAddress r)) d)))"
proof -
  let ?f = "Doc (JDict d)"
  from run_summary[of env ?f] consider
    (same) "contr_info_file (snd (run env ?f)) = ?f" "fst (run env ?f) \<noteq> Inr ()"
  | (written) d0 r h where "?f = Doc (JDict d0)" "eth_waitForTransactionReceipt env h = Inr r"
      "contr_info_file (snd (run env ?f)) =
         Doc (JDict (dict_setitem record_key
            (record_data (abi (snd (run env ?f))) (contractAddress r)) d0))"
    by blast
  then show ?thesis
  proof cases
    case same
    then show ?thesis by simp
  next
    case written
    from written(1) have "d0 = d" by simp
    with written(2,3) show ?thesis by blast
  qed
qed

lemma run_success_dict:
  assumes "fst (run env f) = Inr ()"
  shows "\<exists>d r h. f = Doc (JDict d) \<and> eth_waitForTransactionReceipt env h = Inr r \<and>
           contr_info_file (snd (run env f)) =
             Doc (JDict (dict_setitem record_key
                    (record_data (abi (snd (run env f))) (contractAddress r)) d))"
  using run_summary[of env f] assms by blast

lemma bind_st_snd:
  assumes "Q (snd (m s))" and "\<And>x s'. Q s' \<Longrightarrow> Q (snd (f x s'))"
  shows "Q (snd (bind_st m f s))"
  using assms by (cases "m s") (auto simp: bind_st_def split: sum.splits)

lemma run_cases [case_names prelude_failed deploy_failed deployed]:
  obtains e s3 where "prelude env (fresh f) = (Inl e, s3)" "run env f = (Inl e, s3)"
  | s3 e s4 where "prelude env (fresh f) = (Inr (), s3)" "deploy env s3 = (Inl e, s4)"
      "run env f = (Inl e, s4)"
  | s3 s4 where "prelude env (fresh f) = (Inr (), s3)" "deploy env s3 = (Inr (), s4)"
      "run env f = update_ens_content env s4"
proof -
  obtain r3 s3 where p: "prelude env (fresh f) = (r3, s3)" by (cases "prelude env (fresh f)")
  obtain r4 s4 where d: "deploy env s3 = (r4, s4)" by (cases "deploy env s3")
  show thesis
  proof (cases r3)
    case (Inl e)
    with p that(1) show ?thesis by (simp add: run_prelude bind_st_def)
  next
    case (Inr u)
    show ?thesis
    proof (cases r4)
      case (Inl e)
      with p d \<open>r3 = Inr u\<close> that(2) show ?thesis by (simp add: run_prelude bind_st_def)
    next
      case (Inr u')
      with p d \<open>r3 = Inr u\<close> that(3) show ?thesis by (simp add: run_prelude bind_st_def)
    qed
  qed
qed

lemma publish_no_client:
  "client s = None \<Longrightarrow> publish_contr_info env s = (Inr (), s\<lparr>ipfs_hash := []\<rparr>)"
  by (simp add: publish_contr_info_def prog_defs)

lemma publish_client:
  "client s = Some c \<Longrightarrow> client_add env (contr_info_file s) = Inr h \<Longrightarrow>
   publish_contr_info env s =
     (Inr (), s\<lparr>ipfs_hash := h, trace := trace s @
        [IpfsAdd ContrInfoPath, LogInfo (IpfsHashSet h), LogInfo (CheckAbiOn h)]\<rparr>)"
  by (simp add: publish_contr_info_def prog_defs)

lemma close_no_client: "client s = None \<Longrightarrow> close_ipfs_connection env s = (Inr (), s)"
  by (simp add: close_ipfs_connection_def prog_defs)

lemma open_ipfs_client:
  "(client (snd (open_ipfs_connection env s)) = None) = (\<not> connects env)"
  by (simp add: open_ipfs_connection_def connects_def prog_defs split: sum.splits)

lemma update_off_ropsten:
  assumes "current_chain s \<noteq> ''ropsten''"
  shows "update_ens_content env s =
    bind_st (publish_contr_info env) (\<lambda>_. close_ipfs_connection env) s"
proof -
  have "keeps current_chain (publish_contr_info env)" by (rule publish_keeps) simp_all
  from keepsD[OF this, of s] assms show ?thesis
    by (cases "publish_contr_info env s")
       (simp add: update_ens_content_def bind_st_def gets_def return_def split: sum.splits)
qed

lemma update_on_ropsten:
  assumes "current_chain s = ''ropsten''"
  shows "update_ens_content env s =
    bind_st (publish_contr_info env) (\<lambda>_.
      bind_st (assign_ens env) (\<lambda>_. close_ipfs_connection env)) s"
proof -
  have "keeps current_chain (publish_contr_info env)" by (rule publish_keeps) simp_all
  from keepsD[OF this, of s] assms show ?thesis
    by (cases "publish_contr_info env s")
       (simp add: update_ens_content_def bind_st_def gets_def return_def split: sum.splits)
qed

lemma prelude_chain: "current_chain (snd (prelude env s)) = config_current_chain env"
proof -
  let ?Q = "\<lambda>s. current_chain s = config_current_chain env"
  have i: "?Q (snd (init env s))" for s
    by (simp add: init_def check_balance_def prog_defs Let_def split: sum.splits)
  have "keeps current_chain (open_ipfs_connection env)" by (rule open_ipfs_keeps) simp_all
  then have o: "?Q s' \<Longrightarrow> ?Q (snd (open_ipfs_connection env s'))" for s'
    by (simp add: keepsD)
  have "keeps current_chain (compile_contract env)" by (rule compile_keeps) simp_all
  then have c: "?Q s' \<Longrightarrow> ?Q (snd (compile_contract env s'))" for s'
    by (simp add: keepsD)
  show ?thesis
    unfolding prelude_def
    by (rule bind_st_snd[where Q = ?Q], rule i, rule bind_st_snd[where Q = ?Q], erule o, erule c)
qed

lemma prelude_client:
  assumes "\<not> connects env"
  shows "client (snd (prelude env (fresh f))) = None"
proof -
  let ?Q = "\<lambda>s. client s = None"
  have "keeps client (init env)" by (rule init_keeps) simp_all
  then have i: "?Q (snd (init env (fresh f)))" by (simp add: keepsD fresh_def)
  from assms have o: "?Q (snd (open_ipfs_connection env s'))" for s'
    by (simp add: open_ipfs_client)
  have "keeps client (compile_contract env)" by (rule compile_keeps) simp_all
  then have c: "?Q s' \<Longrightarrow> ?Q (snd (compile_contract env s'))" for s'
    by (simp add: keepsD)
  show ?thesis
    unfolding prelude_def
    by (rule bind_st_snd[where Q = ?Q], rule i, rule bind_st_snd[where Q = ?Q], rule o, erule c)
qed

lemma run_trace_all:
  assumes pre: "emits P (prelude env)" and dep: "emits P (deploy env)"
    and upd: "\<And>s3 s4. prelude env (fresh f) = (Inr (), s3) \<Longrightarrow> deploy env s3 = (Inr (), s4) \<Longrightarrow>
      \<exists>evs. trace (snd (update_ens_content env s4)) = trace s4 @ evs \<and> list_all P evs"
  shows "list_all P (trace (snd (run env f)))"
proof (cases env f rule: run_cases)
  case (prelude_failed e s3)
  with emitsD[OF pre, of "fresh f"] show ?thesis by (auto simp: fresh_def)
next
  case (deploy_failed s3 e s4)
  with emitsD[OF pre, of "fresh f"] emitsD[OF dep, of s3] show ?thesis by (auto simp: fresh_def)
next
  case (deployed s3 s4)
  with emitsD[OF pre, of "fresh f"] emitsD[OF dep, of s3] upd[OF deployed(1,2)] show ?thesis
    by (auto simp: fresh_def)
qed

lemma update_no_client:
  assumes "client s = None"
  shows "\<exists>evs. trace (snd (update_ens_content env s)) = trace s @ evs \<and>
           list_all (\<lambda>e. \<not> content_store_call e) evs"
proof -
  let ?s1 = "s\<lparr>ipfs_hash := []\<rparr>"
  have p: "publish_contr_info env s = (Inr (), ?s1)" using assms by (rule publish_no_client)
  show ?thesis
  proof (cases "current_chain s = ''ropsten''")
    case False
    with p assms show ?thesis
      by (simp add: update_off_ropsten bind_st_def close_no_client)
  next
    case True
    obtain r s2 where a: "assign_ens env ?s1 = (r, s2)" by (cases "assign_ens env ?s1")
    have "emits (\<lambda>e. \<not> content_store_call e) (assign_ens env)"
      by (rule assign_ens_emits) (auto elim: registry_call.elims)
    from emitsD[OF this, of ?s1] a obtain evs where
      evs: "trace s2 = trace s @ evs" "list_all (\<lambda>e. \<not> content_store_call e) evs" by auto
    have "keeps client (assign_ens env)" by (rule assign_ens_keeps) simp_all
    from keepsD[OF this, of ?s1] a assms have "client s2 = None" by simp
    with True p a evs show ?thesis
      by (cases r) (simp_all add: update_on_ropsten bind_st_def close_no_client)
  qed
qed

lemma assign_ens_transactions:
  "case assign_ens env s of
     (Inl e, s') \<Rightarrow> True
   | (Inr u, s') \<Rightarrow>
       transactions (drop (length (trace s)) (trace s')) =
         [''setSubnodeOwner'', ''setResolver'', ''setAddr'', ''setName''] @
         (if client s \<noteq> None then [''setContenthash''] else [])"
  by (cases "client s")
     (simp_all add: assign_ens_def prog_defs Let_def split: sum.split)

section \<open>The claims\<close>



text \<open>
  Claim C2, as stated, fails: the update has no key parameter, so two updates with two
  different records do not leave two entries. From the empty mapping, the update with
  a first record followed by the update with a second one leaves a single entry, under
  \<open>blockcertsonchaining\<close>, holding the second record; the first is gone.
\<close>

theorem C2_counterexample:
  "contr_info_file
     (snd (save_contract_data sample_env \<lparr>contractAddress = ''0xbbb'', gasUsed = 2\<rparr>
       (snd (save_contract_data sample_env \<lparr>contractAddress = ''0xaaa'', gasUsed = 1\<rparr>
         ((fresh (Doc (JDict [])))\<lparr>abi := sample_abi\<rparr>)))))
     = Doc (JDict [(''blockcertsonchaining'', record_data sample_abi ''0xbbb'')])
   \<and> record_data sample_abi ''0xaaa''
       \<notin> set (map snd [(''blockcertsonchaining'', record_data sample_abi ''0xbbb'')])"
  by (simp add: save_contract_data_def prog_defs fresh_def record_key_def record_data_def
        sample_defs Let_def)

text \<open>
  Claim C2, amended. On a record file that holds a JSON object and can be opened for
  writing, the update is a merge under the one fixed key: the file then holds the prior
  entries with the entry of that key set to the new record (every other key keeps its
  value), the same update applied twice leaves the same file as applied once, and an
  update with another record replaces the entry of the first.
\<close>

theorem C2_merge_under_fixed_key:
  assumes "contr_info_file s = Doc (JDict d)" and "open_contr_info_w env = Inr ()"
  shows "contr_info_file (snd (save_contract_data env r s)) =
           Doc (JDict (dict_setitem record_key (record_data (abi s) (contractAddress r)) d))
       \<and> map_of (dict_setitem record_key (record_data (abi s) (contractAddress r)) d) =
           (map_of d)(record_key \<mapsto> record_data (abi s) (contractAddress r))
       \<and> contr_info_file (snd (save_contract_data env r (snd (save_contract_data env r s)))) =
           contr_info_file (snd (save_contract_data env r s))
       \<and> contr_info_file (snd (save_contract_data env r' (snd (save_contract_data env r s)))) =
           Doc (JDict (dict_setitem record_key (record_data (abi s) (contractAddress r')) d))"
proof -
  let ?s1 = "snd (save_contract_data env r s)"
  have 1: "contr_info_file ?s1 =
      Doc (JDict (dict_setitem record_key (record_data (abi s) (contractAddress r)) d))"
    and a: "abi ?s1 = abi s"
    by (simp_all add: save_contract_data_dict[OF assms])
  from 1 a assms(2) have 2: "contr_info_file (snd (save_contract_data env r'' ?s1)) =
      Doc (JDict (dict_setitem record_key (record_data (abi s) (contractAddress r'')) d))" for r''
    by (simp add: save_contract_data_dict dict_setitem_twice)
  from 1 2 show ?thesis by (simp add: dict_setitem_map_of)
qed

text \<open>The update on the sample file keeps the entry of the other contract.\<close>

theorem C2_merge_under_fixed_key_witness:
  "contr_info_file ((fresh sample_file)\<lparr>abi := sample_abi\<rparr>) = sample_file
   \<and> open_contr_info_w sample_env = Inr ()
   \<and> contr_info_file (snd (save_contract_data sample_env
        \<lparr>contractAddress = ''0xaaa'', gasUsed = 1\<rparr> ((fresh sample_file)\<lparr>abi := sample_abi\<rparr>))) =
      Doc (JDict [(''other'', JDict [(''abi'', JList []), (''address'', JStr ''0x01'')]),
                  (''blockcertsonchaining'', record_data sample_abi ''0xaaa'')])"
  using C2_merge_under_fixed_key [of "(fresh sample_file)\<lparr>abi := sample_abi\<rparr>"
      "[(''other'', JDict [(''abi'', JList []), (''address'', JStr ''0x01'')])]" sample_env
      "\<lparr>contractAddress = ''0xaaa'', gasUsed = 1\<rparr>"]
  by (simp add: fresh_def sample_file_def sample_env_def record_key_def)

text \<open>
  Claim C3, as stated, fails: nothing catches an exception of the name binding. In the
  sample world with a \<open>setResolver\<close> transaction that is rejected, the content
  channel is opened, the run ends with the exception of the registry, and neither the
  shutdown of the daemon nor the closing of the client takes place.
\<close>

theorem C3_counterexample:
  "fst (run rejecting_env sample_file) = Inl (Failure ''reverted'')
   \<and> IpfsConnect ''/ip4/127.0.0.1/tcp/5001/http'' \<in> set (trace (snd (run rejecting_env sample_file)))
   \<and> SubprocessRun [''ipfs'', ''shutdown''] \<notin> set (trace (snd (run rejecting_env sample_file)))
   \<and> IpfsClose \<notin> set (trace (snd (run rejecting_env sample_file)))"
  by (simp add: run_defs prog_defs sample_defs Let_def)

text \<open>
  Claim C3, amended. When a step of the name binding raises (on ropsten, after the
  publication went through), \<^verbatim>\<open>_update_ens_content\<close> ends there with that exception:
  it is the result of the method, and so of the run; no call to the content store
  follows the publication, so the content channel is not closed; the record file,
  written before, stays as it is.
\<close>

theorem C3_name_binding_failure_propagates:
  assumes "current_chain s = ''ropsten''"
    and "fst (publish_contr_info env s) = Inr ()"
    and "fst (assign_ens env (snd (publish_contr_info env s))) = Inl e"
  shows "update_ens_content env s = assign_ens env (snd (publish_contr_info env s))
       \<and> fst (update_ens_content env s) = Inl e
       \<and> \<not> list_ex content_store_call
            (drop (length (trace (snd (publish_contr_info env s))))
               (trace (snd (update_ens_content env s))))
       \<and> contr_info_file (snd (update_ens_content env s)) = contr_info_file s"
proof -
  let ?s1 = "snd (publish_contr_info env s)"
  obtain s1 where p: "publish_contr_info env s = (Inr (), s1)"
    using assms(2) by (cases "publish_contr_info env s") simp
  then have s1: "?s1 = s1" by simp
  obtain s2 where a: "assign_ens env s1 = (Inl e, s2)"
    using assms(3) unfolding s1 by (cases "assign_ens env s1") simp
  have "update_ens_content env s = (Inl e, s2)"
    by (simp add: update_on_ropsten[OF assms(1)] bind_st_def p a)
  with a have u: "update_ens_content env s = assign_ens env ?s1"
    unfolding s1 by simp
  have "emits (\<lambda>e. \<not> content_store_call e) (assign_ens env)"
    by (rule assign_ens_emits) (auto elim: registry_call.elims)
  from emitsD[OF this, of ?s1] obtain evs where
    "trace (snd (assign_ens env ?s1)) = trace ?s1 @ evs" "list_all (\<lambda>e. \<not> content_store_call e) evs"
    by blast
  then have t: "\<not> list_ex content_store_call
            (drop (length (trace ?s1)) (trace (snd (assign_ens env ?s1))))"
    by (simp add: list_all_iff list_ex_iff)
  have "keeps contr_info_file (update_ens_content env)" by (rule update_keeps) simp_all
  then have "contr_info_file (snd (update_ens_content env s)) = contr_info_file s"
    by (rule keepsD)
  with u t assms(3) show ?thesis by simp
qed

text \<open>The rejected \<open>setResolver\<close>: the method stops at that transaction.\<close>

theorem C3_name_binding_failure_propagates_witness:
  "current_chain connected_state = ''ropsten''
   \<and> fst (publish_contr_info rejecting_env connected_state) = Inr ()
   \<and> fst (assign_ens rejecting_env (snd (publish_contr_info rejecting_env connected_state))) =
       Inl (Failure ''reverted'')
   \<and> fst (update_ens_content rejecting_env connected_state) = Inl (Failure ''reverted'')
   \<and> trace (snd (update_ens_content rejecting_env connected_state)) =
      [IpfsAdd ContrInfoPath, LogInfo (IpfsHashSet ''Qm1''), LogInfo (CheckAbiOn ''Qm1''),
       ContractConnection ''ropsten_ens_registry'',
       Transact ''ropsten_ens_registry'' ''setSubnodeOwner''
         [''namehash:blockcerts.eth'', ''keccak:tub'',
          ''0xB4d9313EE835b3d3eE7759826e1F3C3Ac23dFaf3''],
       Transact ''ropsten_ens_registry'' ''setResolver''
         [''namehash:tub.blockcerts.eth'', ''0x12299799a50340FB860D276805E78550cBaD3De3'']]"
  using C3_name_binding_failure_propagates [of connected_state rejecting_env "Failure ''reverted''"]
  by (simp add: run_defs prog_defs sample_defs Let_def)




text \<open>
  Claim C5, as stated, fails: with no record file, the sample run creates the contract
  on chain and then ends with \<^verbatim>\<open>FileNotFoundError\<close>; the file is not created.
\<close>

theorem C5_counterexample:
  "fst (run sample_env Absent) = Inl FileNotFoundError
   \<and> contr_info_file (snd (run sample_env Absent)) = Absent
   \<and> EthSendRawTransaction ''signed'' \<in> set (trace (snd (run sample_env Absent)))"
  by (simp add: run_defs prog_defs sample_defs Let_def)

text \<open>
  Claim C5, amended. An absent or unparseable record file is not taken as an empty
  mapping: reading it raises (\<^verbatim>\<open>FileNotFoundError\<close> for an absent file,
  \<^verbatim>\<open>JSONDecodeError\<close> for an unparseable one) before anything is written, so no run
  from such a file succeeds, and the file is left as it was.
\<close>

theorem C5_unreadable_record_file_fails:
  assumes "f = Absent \<or> f = Unparseable t"
  shows "fst (run env f) \<noteq> Inr ()
       \<and> contr_info_file (snd (run env f)) = f
       \<and> \<not> list_ex record_write (trace (snd (run env f)))
       \<and> save_contract_data env r (s\<lparr>contr_info_file := f\<rparr>) =
           (Inl (if f = Absent then FileNotFoundError else JSONDecodeError),
            s\<lparr>contr_info_file := f, trace := trace s @ [FileOpen ContrInfoPath ''r'']\<rparr>)"
proof -
  from assms have nd: "\<And>d. f \<noteq> Doc (JDict d)" by auto
  with run_summary[of env f] have "file_states f (trace (snd (run env f))) = [f]"
    "contr_info_file (snd (run env f)) = f" "fst (run env f) \<noteq> Inr ()" by auto
  moreover from assms have "save_contract_data env r (s\<lparr>contr_info_file := f\<rparr>) =
           (Inl (if f = Absent then FileNotFoundError else JSONDecodeError),
            s\<lparr>contr_info_file := f, trace := trace s @ [FileOpen ContrInfoPath ''r'']\<rparr>)"
    by (auto simp: save_contract_data_def prog_defs)
  ultimately show ?thesis by (simp add: file_states_single)
qed

text \<open>A record file holding only an opening brace: the sample run ends with the parse error.\<close>

theorem C5_unreadable_record_file_fails_witness:
  "(Unparseable ''{'' = Absent \<or> Unparseable ''{'' = Unparseable ''{'')
   \<and> fst (run sample_env (Unparseable ''{'')) = Inl JSONDecodeError
   \<and> contr_info_file (snd (run sample_env (Unparseable ''{''))) = Unparseable ''{''"
  using C5_unreadable_record_file_fails [of "Unparseable ''{''" "''{''" sample_env]
  by (simp add: run_defs prog_defs sample_defs Let_def)

text \<open>
  Claim C6. Every transaction built in a run has as gas limit twice the estimate of the
  dry run, whatever the estimate; and when the contract object, the estimate \<open>g\<close>, the
  nonce \<open>n\<close>, the construction and the signature succeed, \<^verbatim>\<open>_deploy\<close> estimates,
  reads the nonce, builds the transaction with nonce \<open>n\<close> and gas \<open>2 * g\<close>, and
  broadcasts the signature of exactly that transaction.
\<close>

theorem C6_gas_limit_twice_estimate:
  "list_all (gas_doubled env) (trace (snd (run env f)))
   \<and> (eth_contract env (abi s) (bytecode s) = Inr () \<and> estimateGas env = Inr g \<and>
      eth_getTransactionCount env (pubkey s) = Inr n \<and>
      buildTransaction env \<lparr>nonce = n, gas = 2 * g\<rparr> = Inr () \<and>
      sign_transaction env \<lparr>nonce = n, gas = 2 * g\<rparr> = Inr raw \<longrightarrow>
        take 4 (drop (length (trace s)) (trace (snd (deploy env s)))) =
          [EthEstimateGas, EthGetTransactionCount (pubkey s),
           BuildTransaction \<lparr>nonce = n, gas = 2 * g\<rparr>, EthSendRawTransaction raw])"
proof -
  let ?P = "gas_doubled env"
  have "emits ?P (prelude env)" by (rule prelude_emits) simp_all
  moreover have "emits ?P (deploy env)"
    by (rule deploy_emits) (auto elim: record_write.elims)
  moreover have "emits ?P (update_ens_content env)"
    by (rule update_emits) (auto elim: content_store_call.elims registry_call.elims)
  ultimately have "emits ?P (main env)"
    unfolding main_prelude by (intro emits_bind)
  from emitsD[OF this, of "fresh f"] have 1: "list_all ?P (trace (snd (run env f)))"
    by (simp add: run_def fresh_def)
  have 2: "take 4 (drop (length (trace s)) (trace (snd (deploy env s)))) =
          [EthEstimateGas, EthGetTransactionCount (pubkey s),
           BuildTransaction \<lparr>nonce = n, gas = 2 * g\<rparr>, EthSendRawTransaction raw]"
    if "eth_contract env (abi s) (bytecode s) = Inr ()" "estimateGas env = Inr g"
      "eth_getTransactionCount env (pubkey s) = Inr n"
      "buildTransaction env \<lparr>nonce = n, gas = 2 * g\<rparr> = Inr ()"
      "sign_transaction env \<lparr>nonce = n, gas = 2 * g\<rparr> = Inr raw"
    using that
    by (simp add: deploy_def save_contract_data_def prog_defs Let_def mult.commute
          split: sum.splits prod.splits json_file.splits)
  from 1 2 show ?thesis by blast
qed

text \<open>In the sample world the estimate is 100000 and the gas limit 200000.\<close>

theorem C6_gas_limit_twice_estimate_witness:
  "estimateGas sample_env = Inr 100000
   \<and> BuildTransaction \<lparr>nonce = 7, gas = 200000\<rparr> \<in> set (trace (snd (run sample_env sample_file)))
   \<and> gas_doubled sample_env (BuildTransaction \<lparr>nonce = 7, gas = 200000\<rparr>)
   \<and> take 4 (drop (length (trace (fresh sample_file)))
        (trace (snd (deploy sample_env (fresh sample_file))))) =
       [EthEstimateGas, EthGetTransactionCount [],
        BuildTransaction \<lparr>nonce = 7, gas = 200000\<rparr>, EthSendRawTransaction ''signed'']"
  using C6_gas_limit_twice_estimate [of sample_env sample_file "fresh sample_file" 100000 7 "''signed''"]
  by (simp add: sample_run) (simp add: sample_env_def fresh_def)

text \<open>
  Claim C7. With a configured chain other than \<open>ropsten\<close>, no run makes any call to
  the registry or the resolver: \<^verbatim>\<open>_update_ens_content\<close> is then the publication
  followed by the shutdown. On \<open>ropsten\<close> the name binding runs between the two, and
  a binding that returns has sent \<open>setSubnodeOwner\<close>, \<open>setResolver\<close>, \<open>setAddr\<close>,
  \<open>setName\<close> and, exactly when a client is connected, \<open>setContenthash\<close>, in this
  order.
\<close>

theorem C7_name_binding_only_on_ropsten:
  "(config_current_chain env \<noteq> ''ropsten'' \<longrightarrow>
      \<not> list_ex registry_call (trace (snd (run env f))))
   \<and> (current_chain s \<noteq> ''ropsten'' \<longrightarrow>
      update_ens_content env s =
        bind_st (publish_contr_info env) (\<lambda>_. close_ipfs_connection env) s)
   \<and> (current_chain s = ''ropsten'' \<longrightarrow>
      update_ens_content env s =
        bind_st (publish_contr_info env) (\<lambda>_.
          bind_st (assign_ens env) (\<lambda>_. close_ipfs_connection env)) s)
   \<and> (fst (assign_ens env s) = Inr () \<longrightarrow>
      transactions (drop (length (trace s)) (trace (snd (assign_ens env s)))) =
        [''setSubnodeOwner'', ''setResolver'', ''setAddr'', ''setName''] @
        (if client s \<noteq> None then [''setContenthash''] else []))"
proof (intro conjI impI)
  let ?P = "\<lambda>e. \<not> registry_call e"
  assume off: "config_current_chain env \<noteq> ''ropsten''"
  have pre: "emits ?P (prelude env)" by (rule prelude_emits) simp_all
  have dep: "emits ?P (deploy env)" by (rule deploy_emits) (auto elim: record_write.elims)
  have "list_all ?P (trace (snd (run env f)))"
  proof (rule run_trace_all[OF pre dep])
    fix s3 s4
    assume p: "prelude env (fresh f) = (Inr (), s3)" and d: "deploy env s3 = (Inr (), s4)"
    from prelude_chain[of env "fresh f"] p have "current_chain s3 = config_current_chain env"
      by simp
    moreover have "keeps current_chain (deploy env)" by (rule deploy_keeps) simp_all
    from keepsD[OF this, of s3] d have "current_chain s4 = current_chain s3" by simp
    ultimately have c4: "current_chain s4 \<noteq> ''ropsten''" using off by simp
    have "emits ?P (bind_st (publish_contr_info env) (\<lambda>_. close_ipfs_connection env))"
      by (intro emits_bind publish_emits close_emits) (auto elim: content_store_call.elims)
    from emitsD[OF this, of s4] c4
    show "\<exists>evs. trace (snd (update_ens_content env s4)) = trace s4 @ evs \<and> list_all ?P evs"
      by (simp add: update_off_ropsten)
  qed
  then show "\<not> list_ex registry_call (trace (snd (run env f)))"
    by (simp add: list_all_iff list_ex_iff)
next
  assume "current_chain s \<noteq> ''ropsten''"
  then show "update_ens_content env s =
        bind_st (publish_contr_info env) (\<lambda>_. close_ipfs_connection env) s"
    by (rule update_off_ropsten)
next
  assume "current_chain s = ''ropsten''"
  then show "update_ens_content env s =
        bind_st (publish_contr_info env) (\<lambda>_.
          bind_st (assign_ens env) (\<lambda>_. close_ipfs_connection env)) s"
    by (rule update_on_ropsten)
next
  assume "fst (assign_ens env s) = Inr ()"
  then show "transactions (drop (length (trace s)) (trace (snd (assign_ens env s)))) =
        [''setSubnodeOwner'', ''setResolver'', ''setAddr'', ''setName''] @
        (if client s \<noteq> None then [''setContenthash''] else [])"
    using assign_ens_transactions[where env = env and s = s] by (cases "assign_ens env s") simp
qed

text \<open>The sample world on \<open>mainnet\<close> binds no name; on \<open>ropsten\<close> it sends all five.\<close>

theorem C7_name_binding_only_on_ropsten_witness:
  "config_current_chain mainnet_env \<noteq> ''ropsten''
   \<and> fst (run mainnet_env sample_file) = Inr ()
   \<and> \<not> list_ex registry_call (trace (snd (run mainnet_env sample_file)))
   \<and> transactions (trace (snd (run sample_env sample_file))) =
        [''setSubnodeOwner'', ''setResolver'', ''setAddr'', ''setName'', ''setContenthash'']
   \<and> fst (assign_ens sample_env (fresh sample_file)) = Inr ()
   \<and> transactions (trace (snd (assign_ens sample_env (fresh sample_file)))) =
        [''setSubnodeOwner'', ''setResolver'', ''setAddr'', ''setName'']"
  using C7_name_binding_only_on_ropsten [of mainnet_env sample_file "fresh sample_file"]
    C7_name_binding_only_on_ropsten [of sample_env sample_file "fresh sample_file"]
  by (simp add: sample_run) (simp add: run_defs prog_defs sample_defs Let_def)

text \<open>
  Claim C8. For every balance \<open>B\<close> and gas price \<open>P\<close> that the node reports,
  \<^verbatim>\<open>check_balance\<close> ends the run with the exit message if and only if
  \<open>B < 600000 * P\<close>, and otherwise returns; in both cases it has made exactly the two
  read calls (gas price, balance). A run it aborts consists of the connection set-up
  and these two calls: no call that changes the chain, and an untouched record file.
\<close>

theorem C8_balance_guard:
  assumes "MakeW3 env = Inr a" and "eth_gasPrice env = Inr P" and "eth_getBalance env a = Inr B"
  shows "(fst (check_balance env (s\<lparr>pubkey := a\<rparr>)) =
            Inl (SystemExit ''Your gas balance is not sufficient for performing all transactions.''))
           = (B < 600000 * P)
       \<and> (fst (check_balance env (s\<lparr>pubkey := a\<rparr>)) = Inr ()) = (\<not> B < 600000 * P)
       \<and> snd (check_balance env (s\<lparr>pubkey := a\<rparr>)) =
            s\<lparr>pubkey := a, trace := trace s @ [EthGasPrice, EthGetBalance a]\<rparr>
       \<and> (B < 600000 * P \<longrightarrow>
            run env f =
              (Inl (SystemExit ''Your gas balance is not sufficient for performing all transactions.''),
               (fresh f)\<lparr>current_chain := config_current_chain env, pubkey := a,
                 trace := [MakeW3Call, EthGasPrice, EthGetBalance a]\<rparr>)
            \<and> \<not> list_ex network_mutating (trace (snd (run env f))))"
  using assms
  by (simp add: check_balance_def run_def main_def init_def fresh_def prog_defs Let_def)


text \<open>The guard at gas price 2: a balance of 1199999 aborts the run, 5000000 passes.\<close>

theorem C8_balance_guard_witness:
  "MakeW3 poor_env = Inr ''0xA11ce''
   \<and> eth_gasPrice poor_env = Inr 2
   \<and> eth_getBalance poor_env ''0xA11ce'' = Inr 1199999
   \<and> (1199999 :: int) < 600000 * 2
   \<and> run poor_env sample_file =
        (Inl (SystemExit ''Your gas balance is not sufficient for performing all transactions.''),
         (fresh sample_file)\<lparr>current_chain := ''ropsten'', pubkey := ''0xA11ce'',
            trace := [MakeW3Call, EthGasPrice, EthGetBalance ''0xA11ce'']\<rparr>)
   \<and> fst (check_balance sample_env ((fresh sample_file)\<lparr>pubkey := ''0xA11ce''\<rparr>)) = Inr ()"
  using C8_balance_guard [of poor_env "''0xA11ce''" 2 1199999 "fresh sample_file" sample_file]
    C8_balance_guard [of sample_env "''0xA11ce''" 2 5000000 "fresh sample_file" sample_file]
  by (simp add: sample_env_def poor_env_def)

text \<open>
  Claim C9. Without a client (\<^verbatim>\<open>self._client\<close> is \<^verbatim>\<open>None\<close>), the publication
  returns at once: the content identifier is the empty string and nothing is sent.
  With a client, the record file is added and the identifier is the one the store
  returns. The client is absent exactly when a step of the connection failed, and a
  run whose connection failed makes no call to the content store at all.
\<close>

theorem C9_publish_without_connection:
  "(client s = None \<longrightarrow> publish_contr_info env s = (Inr (), s\<lparr>ipfs_hash := []\<rparr>))
   \<and> (client s = Some c \<and> client_add env (contr_info_file s) = Inr h \<longrightarrow>
        publish_contr_info env s =
          (Inr (), s\<lparr>ipfs_hash := h, trace := trace s @
             [IpfsAdd ContrInfoPath, LogInfo (IpfsHashSet h), LogInfo (CheckAbiOn h)]\<rparr>))
   \<and> (client (snd (open_ipfs_connection env s)) = None) = (\<not> connects env)
   \<and> (\<not> connects env \<longrightarrow> \<not> list_ex content_store_call (trace (snd (run env f))))"
proof (intro conjI impI)
  let ?P = "\<lambda>e. \<not> content_store_call e"
  assume off: "\<not> connects env"
  have pre: "emits ?P (prelude env)" by (rule prelude_emits) simp_all
  have dep: "emits ?P (deploy env)" by (rule deploy_emits) (auto elim: record_write.elims)
  have "list_all ?P (trace (snd (run env f)))"
  proof (rule run_trace_all[OF pre dep])
    fix s3 s4
    assume p: "prelude env (fresh f) = (Inr (), s3)" and d: "deploy env s3 = (Inr (), s4)"
    from prelude_client[OF off, of f] p have "client s3 = None" by simp
    moreover have "keeps client (deploy env)" by (rule deploy_keeps) simp_all
    from keepsD[OF this, of s3] d have "client s4 = client s3" by simp
    ultimately have "client s4 = None" by simp
    then show "\<exists>evs. trace (snd (update_ens_content env s4)) = trace s4 @ evs \<and> list_all ?P evs"
      by (rule update_no_client)
  qed
  then show "\<not> list_ex content_store_call (trace (snd (run env f)))"
    by (simp add: list_all_iff list_ex_iff)
qed (simp_all add: publish_no_client publish_client open_ipfs_client)

text \<open>A refused connection in the sample world, against the connected sample run.\<close>

theorem C9_publish_without_connection_witness:
  "\<not> connects offline_env
   \<and> fst (run offline_env sample_file) = Inr ()
   \<and> \<not> list_ex content_store_call (trace (snd (run offline_env sample_file)))
   \<and> publish_contr_info offline_env (fresh sample_file) =
       (Inr (), (fresh sample_file)\<lparr>ipfs_hash := []\<rparr>)
   \<and> client connected_state = Some ()
   \<and> client_add sample_env (contr_info_file connected_state) = Inr ''Qm1''
   \<and> publish_contr_info sample_env connected_state =
       (Inr (), connected_state\<lparr>ipfs_hash := ''Qm1'', trace := trace connected_state @
          [IpfsAdd ContrInfoPath, LogInfo (IpfsHashSet ''Qm1''), LogInfo (CheckAbiOn ''Qm1'')]\<rparr>)"
  using C9_publish_without_connection [of "fresh sample_file" offline_env "()" "''Qm1''" sample_file]
    C9_publish_without_connection [of connected_state sample_env "()" "''Qm1''" sample_file]
  by (simp add: run_defs prog_defs sample_defs connects_def Let_def)

text \<open>
  Claim C10. The record key is the constant \<open>blockcertsonchaining\<close>. A run that
  succeeds has set the entry of this key, in the mapping it found, to its own record;
  whatever a run does, every other key of the mapping keeps its value; and of two
  successive runs that succeed, the second replaces the entry of the first: the
  mapping has the same keys after it as before.
\<close>

theorem C10_single_fixed_key:
  "record_key = ''blockcertsonchaining''
   \<and> (fst (run env f) = Inr () \<longrightarrow>
        (\<exists>d r h. f = Doc (JDict d) \<and> eth_waitForTransactionReceipt env h = Inr r \<and>
           contr_info_file (snd (run env f)) =
             Doc (JDict (dict_setitem record_key
                    (record_data (abi (snd (run env f))) (contractAddress r)) d))))
   \<and> (\<forall>d. f = Doc (JDict d) \<longrightarrow>
        (\<exists>d'. contr_info_file (snd (run env f)) = Doc (JDict d') \<and>
           (\<forall>k. k \<noteq> record_key \<longrightarrow> map_of d' k = map_of d k)))
   \<and> (fst (run env f) = Inr () \<and> fst (run env' (contr_info_file (snd (run env f)))) = Inr () \<longrightarrow>
        (\<exists>d1 d2 r' h'. contr_info_file (snd (run env f)) = Doc (JDict d1) \<and>
           eth_waitForTransactionReceipt env' h' = Inr r' \<and>
           contr_info_file (snd (run env' (Doc (JDict d1)))) = Doc (JDict d2) \<and>
           map_of d2 record_key =
             Some (record_data (abi (snd (run env' (Doc (JDict d1))))) (contractAddress r')) \<and>
           map fst d2 = map fst d1))"
proof (intro conjI impI allI)
  show "record_key = ''blockcertsonchaining''" by (simp add: record_key_def)
next
  assume "fst (run env f) = Inr ()"
  then show "\<exists>d r h. f = Doc (JDict d) \<and> eth_waitForTransactionReceipt env h = Inr r \<and>
           contr_info_file (snd (run env f)) =
             Doc (JDict (dict_setitem record_key
                    (record_data (abi (snd (run env f))) (contractAddress r)) d))"
    by (rule run_success_dict)
next
  fix d
  assume f: "f = Doc (JDict d)"
  from run_dict_cases[of env d] consider
    (same) "contr_info_file (snd (run env f)) = Doc (JDict d)"
  | (written) v where "contr_info_file (snd (run env f)) = Doc (JDict (dict_setitem record_key v d))"
    unfolding f by blast
  then show "\<exists>d'. contr_info_file (snd (run env f)) = Doc (JDict d') \<and>
           (\<forall>k. k \<noteq> record_key \<longrightarrow> map_of d' k = map_of d k)"
  proof cases
    case same
    then show ?thesis by simp
  next
    case written
    have "\<forall>k. k \<noteq> record_key \<longrightarrow> map_of (dict_setitem record_key v d) k = map_of d k"
      by (simp add: dict_setitem_map_of)
    with written show ?thesis by blast
  qed
next
  assume ab: "fst (run env f) = Inr () \<and> fst (run env' (contr_info_file (snd (run env f)))) = Inr ()"
  from run_success_dict[of env f] ab obtain d v where
    1: "contr_info_file (snd (run env f)) = Doc (JDict (dict_setitem record_key v d))"
    by blast
  let ?d1 = "dict_setitem record_key v d"
  from run_success_dict[of env' "Doc (JDict ?d1)"] ab 1 obtain d0 r' h' where
    2: "Doc (JDict ?d1) = Doc (JDict d0)" "eth_waitForTransactionReceipt env' h' = Inr r'"
      "contr_info_file (snd (run env' (Doc (JDict ?d1)))) =
         Doc (JDict (dict_setitem record_key
             (record_data (abi (snd (run env' (Doc (JDict ?d1))))) (contractAddress r')) d0))"
    by auto
  from 2(1) have d0: "d0 = ?d1" by simp
  let ?v2 = "record_data (abi (snd (run env' (Doc (JDict ?d1))))) (contractAddress r')"
  have keys: "map fst (dict_setitem record_key ?v2 ?d1) = map fst ?d1"
    using dict_setitem_has_key[of record_key v d] by (simp only: dict_setitem_keys if_True)
  have val: "map_of (dict_setitem record_key ?v2 ?d1) record_key = Some ?v2"
    by (simp add: dict_setitem_map_of)
  from 1 2(2) 2(3)[unfolded d0] keys val
  show "\<exists>d1 d2 r' h'. contr_info_file (snd (run env f)) = Doc (JDict d1) \<and>
           eth_waitForTransactionReceipt env' h' = Inr r' \<and>
           contr_info_file (snd (run env' (Doc (JDict d1)))) = Doc (JDict d2) \<and>
           map_of d2 record_key =
             Some (record_data (abi (snd (run env' (Doc (JDict d1))))) (contractAddress r')) \<and>
           map fst d2 = map fst d1"
    by blast
qed

text \<open>A second sample run for a contract at another address replaces the first entry.\<close>

theorem C10_single_fixed_key_witness:
  "fst (run sample_env sample_file) = Inr ()
   \<and> fst (run second_env (contr_info_file (snd (run sample_env sample_file)))) = Inr ()
   \<and> contr_info_file (snd (run second_env (contr_info_file (snd (run sample_env sample_file))))) =
       Doc (JDict [(''other'', JDict [(''abi'', JList []), (''address'', JStr ''0x01'')]),
                   (''blockcertsonchaining'',
                    JDict [(''abi'', sample_abi), (''address'', JStr ''0xbeef'')])])"
  using C10_single_fixed_key [of sample_env sample_file second_env]
  by (simp add: sample_run) (simp add: run_defs prog_defs sample_defs Let_def)

end
